theory Spec2Isabelle
  imports Main "HOL-Library.Sublist"
begin

section \<open>Text\<close>

text \<open>
  A Python \<open>str\<close> is a sequence of Unicode code points, and the source indexes, slices and
  measures strings by code point. It also contains literals outside ASCII (messages and
  dictionary keys). A string is therefore a list of code points, each a natural number;
  \<open>asc\<close> writes the ASCII literals of the source, and the other literals are given by their
  code points.
\<close>

type_synonym pystr = "nat list"

abbreviation (input) asc :: "string \<Rightarrow> pystr" where
  "asc s \<equiv> map of_char s"

text \<open>The backslash, U+005C.\<close>

abbreviation (input) bsl :: pystr where
  "bsl \<equiv> [0x5C]"

text \<open>
  \<open>str.isspace\<close> on one code point: the characters that \<open>str.strip()\<close> and
  \<open>str.split()\<close> treat as whitespace.
\<close>

definition is_space :: "nat \<Rightarrow> bool" where
  "is_space c \<longleftrightarrow>
     (9 \<le> c \<and> c \<le> 13) \<or> (28 \<le> c \<and> c \<le> 32) \<or> c = 133 \<or> c = 160 \<or> c = 5760 \<or>
     (8192 \<le> c \<and> c \<le> 8202) \<or> c = 8232 \<or> c = 8233 \<or> c = 8239 \<or> c = 8287 \<or> c = 12288"

text \<open>
  \<open>str.lower\<close> and \<open>str.upper\<close>. Within ASCII the case mapping is fixed: the letters
  A to Z and a to z are each other's images and every other character is its own. Outside
  ASCII the mapping is that of the interpreter's Unicode database, where one character
  can map to several; that table is the parameter \<open>table\<close>, one for each direction.
  \<open>lower_char\<close> is \<open>str.lower\<close> on a string of one character, which is all the source
  applies it to; \<open>str.upper\<close> maps a string character by character.
\<close>

definition lower_char :: "(nat \<Rightarrow> pystr) \<Rightarrow> nat \<Rightarrow> pystr" where
  "lower_char table c =
     (if 65 \<le> c \<and> c \<le> 90 then [c + 32] else if c < 128 then [c] else table c)"

definition upper_char :: "(nat \<Rightarrow> pystr) \<Rightarrow> nat \<Rightarrow> pystr" where
  "upper_char table c =
     (if 97 \<le> c \<and> c \<le> 122 then [c - 32] else if c < 128 then [c] else table c)"

definition upper :: "(nat \<Rightarrow> pystr) \<Rightarrow> pystr \<Rightarrow> pystr" where
  "upper table s = concat (map (upper_char table) s)"

text \<open>
  A table without case pairs: every character outside ASCII is its own image. It stands
  in the examples on ASCII text, where the table is not read.
\<close>

definition no_case_pairs :: "nat \<Rightarrow> pystr" where
  "no_case_pairs c = [c]"

text \<open>\<open>s.strip()\<close>: leading and trailing whitespace removed.\<close>

definition strip :: "pystr \<Rightarrow> pystr" where
  "strip s = rev (dropWhile is_space (rev (dropWhile is_space s)))"

text \<open>
  \<open>s.replace(old, new)\<close>: the occurrences of \<open>old\<close> are found from the left and do not
  overlap; the text after a replaced occurrence is scanned next, the replacement itself is
  not scanned again.
\<close>

fun replace :: "pystr \<Rightarrow> pystr \<Rightarrow> pystr \<Rightarrow> pystr" where
  "replace old new [] = (if old = [] then new else [])"
| "replace old new (c # cs) =
     (if old = [] then new @ c # replace old new cs
      else if prefix old (c # cs) then new @ replace old new (drop (length old) (c # cs))
      else c # replace old new cs)"

text \<open>
  \<open>s.split(sep)\<close> for a separator of one character (the source splits on \<open>/\<close> and on
  the newline): the result always has at least one element.
\<close>

fun split_on :: "nat \<Rightarrow> pystr \<Rightarrow> pystr list" where
  "split_on sep [] = [[]]"
| "split_on sep (c # cs) =
     (if c = sep then [] # split_on sep cs
      else (case split_on sep cs of
              [] \<Rightarrow> [[c]]
            | p # ps \<Rightarrow> (c # p) # ps))"

text \<open>
  \<open>s.split()\<close>: the maximal runs of characters that are not whitespace. The first
  argument is the token being read.
\<close>

fun tokens :: "pystr \<Rightarrow> pystr \<Rightarrow> pystr list" where
  "tokens cur [] = (if cur = [] then [] else [cur])"
| "tokens cur (c # cs) =
     (if is_space c then (if cur = [] then tokens [] cs else cur # tokens [] cs)
      else tokens (cur @ [c]) cs)"

definition split_ws :: "pystr \<Rightarrow> pystr list" where
  "split_ws s = tokens [] s"

text \<open>\<open>sep.join(xs)\<close>.\<close>

fun join :: "pystr \<Rightarrow> pystr list \<Rightarrow> pystr" where
  "join sep [] = []"
| "join sep [x] = x"
| "join sep (x # y # ys) = x @ sep @ join sep (y # ys)"

section \<open>Values, exceptions and the child process\<close>

text \<open>
  The values that the operations put into their result dictionaries, and a dictionary as
  the list of its items in insertion order (the dictionary literals of the source have
  distinct keys).
\<close>

datatype pyval =
    VBool bool
  | VInt int
  | VStr pystr
  | VNone
  | VList "pyval list"
  | VDict "(pystr \<times> pyval) list"

type_synonym pydict = "(pystr \<times> pyval) list"

text \<open>
  The exceptions that can occur. \<open>subprocess.run\<close> raises \<open>TimeoutExpired\<close> when the
  child does not finish in time, and some other exception (\<open>FileNotFoundError\<close>,
  \<open>PermissionError\<close>, another \<open>OSError\<close>, ...) when the child cannot be started; both
  carry the text that \<open>str(e)\<close> returns. All four are subclasses of \<open>Exception\<close>.
\<close>

datatype pyexc =
    TimeoutExpired pystr
  | LaunchError pystr
  | IndexError
  | ValueError pystr

fun str_exc :: "pyexc \<Rightarrow> pystr" where
  "str_exc (TimeoutExpired m) = m"
| "str_exc (LaunchError m) = m"
| "str_exc IndexError = asc ''list index out of range''"
| "str_exc (ValueError m) = m"

text \<open>
  What \<open>subprocess.run\<close> returns when the child completes: exit code, and the captured
  output as text. Every call of the source passes \<open>capture_output=True\<close>, \<open>text=True\<close>,
  \<open>encoding='utf-8'\<close> and \<open>errors='replace'\<close>, so decoding never raises; the decoded text is
  what the model receives. The launcher and the guest are the parameter \<open>run\<close>: argument
  vector and timeout in, completed process or exception out.
\<close>

datatype completed = CompletedProcess (p_returncode: int) (p_stdout: pystr) (p_stderr: pystr)

type_synonym subprocess_run = "pystr list \<Rightarrow> int \<Rightarrow> pyexc + completed"

text \<open>The dataclass \<open>WSLCommandResult\<close>.\<close>

record WSLCommandResult =
  returncode :: int
  stdout :: pystr
  stderr :: pystr

text \<open>\<open>str(n)\<close> for an integer.\<close>

fun str_nat :: "nat \<Rightarrow> pystr" where
  "str_nat n = (if n < 10 then [48 + n] else str_nat (n div 10) @ [48 + n mod 10])"

declare str_nat.simps [simp del]

definition str_int :: "int \<Rightarrow> pystr" where
  "str_int i = (if i < 0 then asc ''-'' @ str_nat (nat (- i)) else str_nat (nat i))"

section \<open>The command bridge (core/wsl.py)\<close>

text \<open>
  \<open>WSLTool._find_wsl\<close>; its value is stored in \<open>self.wsl_path\<close> and heads every
  argument vector.
\<close>

definition find_wsl :: pystr where
  "find_wsl = asc ''wsl.exe''"

text \<open>The message of the \<open>TimeoutExpired\<close> handlers (``command execution timed out'').\<close>

definition timeout_message :: pystr where
  "timeout_message = [0x547D, 0x4EE4, 0x6267, 0x884C, 0x8D85, 0x65F6]"

text \<open>
  \<open>WSLTool.execute_command\<close>. The \<open>try\<close> block is the call of \<open>run\<close> and the
  construction of the result; the first handler takes \<open>TimeoutExpired\<close>, the second every
  other \<open>Exception\<close>.
\<close>

definition execute_command :: "subprocess_run \<Rightarrow> pystr \<Rightarrow> int \<Rightarrow> pyexc + WSLCommandResult" where
  "execute_command run command timeout =
     (case run [find_wsl, asc ''sh'', asc ''-c'', command] timeout of
        Inr result \<Rightarrow>
          Inr \<lparr>returncode = p_returncode result,
               stdout = strip (p_stdout result),
               stderr = strip (p_stderr result)\<rparr>
      | Inl (TimeoutExpired m) \<Rightarrow>
          Inr \<lparr>returncode = - 1, stdout = [], stderr = timeout_message\<rparr>
      | Inl e \<Rightarrow>
          Inr \<lparr>returncode = - 1, stdout = [], stderr = str_exc e\<rparr>)"

text \<open>\<open>WSLTool.execute_command_with_distro\<close> (core/__init__.py).\<close>

definition execute_command_with_distro ::
  "subprocess_run \<Rightarrow> pystr \<Rightarrow> pystr \<Rightarrow> int \<Rightarrow> pyexc + WSLCommandResult" where
  "execute_command_with_distro run command distribution timeout =
     (let cmd_list = [find_wsl];
          cmd_list = (if distribution \<noteq> [] then cmd_list @ [asc ''-d'', distribution]
                      else cmd_list);
          cmd_list = cmd_list @ [asc ''sh'', asc ''-c'', command]
      in case run cmd_list timeout of
        Inr result \<Rightarrow>
          Inr \<lparr>returncode = p_returncode result,
               stdout = strip (p_stdout result),
               stderr = strip (p_stderr result)\<rparr>
      | Inl (TimeoutExpired m) \<Rightarrow>
          Inr \<lparr>returncode = - 1, stdout = [], stderr = timeout_message\<rparr>
      | Inl e \<Rightarrow>
          Inr \<lparr>returncode = - 1, stdout = [], stderr = str_exc e\<rparr>)"

text \<open>
  \<open>WSLTool.execute_command_advanced\<close>: \<open>cmd_list\<close> is extended once for each option
  that is not empty, then by the \<open>--exec\<close> tail, and handed to \<open>subprocess.run\<close>.
\<close>

definition execute_command_advanced ::
  "subprocess_run \<Rightarrow> pystr \<Rightarrow> pystr \<Rightarrow> pystr \<Rightarrow> pystr \<Rightarrow> pystr \<Rightarrow> int
     \<Rightarrow> pyexc + WSLCommandResult" where
  "execute_command_advanced run command distribution user working_dir shell_type timeout =
     (let cmd_list = [find_wsl];
          cmd_list = (if distribution \<noteq> [] then cmd_list @ [asc ''-d'', distribution]
                      else cmd_list);
          cmd_list = (if user \<noteq> [] then cmd_list @ [asc ''-u'', user] else cmd_list);
          cmd_list = (if working_dir \<noteq> [] then cmd_list @ [asc ''--cd'', working_dir]
                      else cmd_list);
          cmd_list = (if shell_type \<noteq> [] then cmd_list @ [asc ''--shell-type'', shell_type]
                      else cmd_list);
          cmd_list = cmd_list @ [asc ''--exec'', asc ''sh'', asc ''-c'', command]
      in case run cmd_list timeout of
        Inr result \<Rightarrow>
          Inr \<lparr>returncode = p_returncode result,
               stdout = strip (p_stdout result),
               stderr = strip (p_stderr result)\<rparr>
      | Inl (TimeoutExpired m) \<Rightarrow>
          Inr \<lparr>returncode = - 1, stdout = [], stderr = timeout_message\<rparr>
      | Inl e \<Rightarrow>
          Inr \<lparr>returncode = - 1, stdout = [], stderr = str_exc e\<rparr>)"

text \<open>
  The lifecycle commands that return a \<open>WSLCommandResult\<close>. Each has the single handler
  \<open>except Exception as e\<close>, which takes \<open>TimeoutExpired\<close> as well; on completion the
  \<open>stdout\<close> field is a fixed confirmation when the exit code is 0 and empty otherwise.
\<close>

text \<open>\<open>WSLTool.shutdown_wsl\<close>; the confirmation reads ``WSL has been shut down''.\<close>

definition shutdown_wsl :: "subprocess_run \<Rightarrow> pyexc + WSLCommandResult" where
  "shutdown_wsl run =
     (case run [find_wsl, asc ''--shutdown''] 10 of
        Inr result \<Rightarrow>
          Inr \<lparr>returncode = p_returncode result,
               stdout = (if p_returncode result = 0 then asc ''WSL'' @ [0x5DF2, 0x5173, 0x95ED]
                         else []),
               stderr = strip (p_stderr result)\<rparr>
      | Inl e \<Rightarrow>
          Inr \<lparr>returncode = - 1, stdout = [], stderr = str_exc e\<rparr>)"

text \<open>\<open>WSLTool.terminate_distribution\<close>; ``distribution ... terminated''.\<close>

definition terminate_distribution :: "subprocess_run \<Rightarrow> pystr \<Rightarrow> pyexc + WSLCommandResult" where
  "terminate_distribution run distribution =
     (case run [find_wsl, asc ''-t'', distribution] 10 of
        Inr result \<Rightarrow>
          Inr \<lparr>returncode = p_returncode result,
               stdout = (if p_returncode result = 0
                         then [0x53D1, 0x884C, 0x7248] @ asc '' '' @ distribution @ asc '' '' @
                              [0x5DF2, 0x7EC8, 0x6B62]
                         else []),
               stderr = strip (p_stderr result)\<rparr>
      | Inl e \<Rightarrow>
          Inr \<lparr>returncode = - 1, stdout = [], stderr = str_exc e\<rparr>)"

text \<open>\<open>WSLTool.set_default_distribution\<close>; ``... set as the default distribution''.\<close>

definition set_default_distribution :: "subprocess_run \<Rightarrow> pystr \<Rightarrow> pyexc + WSLCommandResult" where
  "set_default_distribution run distribution =
     (case run [find_wsl, asc ''-s'', distribution] 10 of
        Inr result \<Rightarrow>
          Inr \<lparr>returncode = p_returncode result,
               stdout = (if p_returncode result = 0
                         then distribution @ asc '' '' @
                              [0x5DF2, 0x8BBE, 0x4E3A, 0x9ED8, 0x8BA4, 0x53D1, 0x884C, 0x7248]
                         else []),
               stderr = strip (p_stderr result)\<rparr>
      | Inl e \<Rightarrow>
          Inr \<lparr>returncode = - 1, stdout = [], stderr = str_exc e\<rparr>)"

text \<open>\<open>WSLTool.export_distribution\<close>; ``distribution exported to ...''.\<close>

definition export_distribution ::
  "subprocess_run \<Rightarrow> pystr \<Rightarrow> pystr \<Rightarrow> pystr \<Rightarrow> pyexc + WSLCommandResult" where
  "export_distribution run distribution file_path format_type =
     (case run [find_wsl, asc ''--export'', distribution, file_path, asc ''--format'',
                format_type] 300 of
        Inr result \<Rightarrow>
          Inr \<lparr>returncode = p_returncode result,
               stdout = (if p_returncode result = 0
                         then [0x53D1, 0x884C, 0x7248, 0x5DF2, 0x5BFC, 0x51FA, 0x5230] @
                              asc '' '' @ file_path
                         else []),
               stderr = strip (p_stderr result)\<rparr>
      | Inl e \<Rightarrow>
          Inr \<lparr>returncode = - 1, stdout = [], stderr = str_exc e\<rparr>)"

text \<open>\<open>WSLTool.import_distribution\<close>; ``distribution ... imported''.\<close>

definition import_distribution ::
  "subprocess_run \<Rightarrow> pystr \<Rightarrow> pystr \<Rightarrow> pystr \<Rightarrow> int \<Rightarrow> pyexc + WSLCommandResult" where
  "import_distribution run distribution install_location file_path version =
     (case run [find_wsl, asc ''--import'', distribution, install_location, file_path,
                asc ''--version'', str_int version] 300 of
        Inr result \<Rightarrow>
          Inr \<lparr>returncode = p_returncode result,
               stdout = (if p_returncode result = 0
                         then [0x53D1, 0x884C, 0x7248] @ asc '' '' @ distribution @ asc '' '' @
                              [0x5DF2, 0x5BFC, 0x5165]
                         else []),
               stderr = strip (p_stderr result)\<rparr>
      | Inl e \<Rightarrow>
          Inr \<lparr>returncode = - 1, stdout = [], stderr = str_exc e\<rparr>)"

text \<open>\<open>WSLTool.unregister_distribution\<close>; ``distribution ... unregistered''.\<close>

definition unregister_distribution :: "subprocess_run \<Rightarrow> pystr \<Rightarrow> pyexc + WSLCommandResult" where
  "unregister_distribution run distribution =
     (case run [find_wsl, asc ''--unregister'', distribution] 30 of
        Inr result \<Rightarrow>
          Inr \<lparr>returncode = p_returncode result,
               stdout = (if p_returncode result = 0
                         then [0x53D1, 0x884C, 0x7248] @ asc '' '' @ distribution @ asc '' '' @
                              [0x5DF2, 0x6CE8, 0x9500]
                         else []),
               stderr = strip (p_stderr result)\<rparr>
      | Inl e \<Rightarrow>
          Inr \<lparr>returncode = - 1, stdout = [], stderr = str_exc e\<rparr>)"

text \<open>\<open>WSLTool.get_wsl_status\<close>.\<close>

definition get_wsl_status :: "subprocess_run \<Rightarrow> pyexc + WSLCommandResult" where
  "get_wsl_status run =
     (case run [find_wsl, asc ''--status''] 10 of
        Inr result \<Rightarrow>
          Inr \<lparr>returncode = p_returncode result,
               stdout = strip (p_stdout result),
               stderr = strip (p_stderr result)\<rparr>
      | Inl e \<Rightarrow>
          Inr \<lparr>returncode = - 1, stdout = [], stderr = str_exc e\<rparr>)"

text \<open>\<open>WSLTool.install_distribution\<close>; ``installing the distribution...''.\<close>

definition install_distribution ::
  "subprocess_run \<Rightarrow> pystr \<Rightarrow> bool \<Rightarrow> bool \<Rightarrow> pyexc + WSLCommandResult" where
  "install_distribution run distribution web_download no_launch =
     (let cmd_list = [find_wsl, asc ''--install''];
          cmd_list = (if distribution \<noteq> [] then cmd_list @ [distribution] else cmd_list);
          cmd_list = (if web_download then cmd_list @ [asc ''--web-download''] else cmd_list);
          cmd_list = (if no_launch then cmd_list @ [asc ''--no-launch''] else cmd_list)
      in case run cmd_list 300 of
        Inr result \<Rightarrow>
          Inr \<lparr>returncode = p_returncode result,
               stdout = (if p_returncode result = 0
                         then [0x6B63, 0x5728, 0x5B89, 0x88C5, 0x53D1, 0x884C, 0x7248] @
                              asc ''...''
                         else []),
               stderr = strip (p_stderr result)\<rparr>
      | Inl e \<Rightarrow>
          Inr \<lparr>returncode = - 1, stdout = [], stderr = str_exc e\<rparr>)"

text \<open>
  The loop of \<open>WSLTool.list_online_distributions\<close> over \<open>lines[1:]\<close>; the second argument
  is the list \<open>distros\<close> built so far.
\<close>

fun online_loop :: "pystr list \<Rightarrow> pystr list \<Rightarrow> pystr list" where
  "online_loop [] distros = distros"
| "online_loop (line # lines) distros =
     (if strip line \<noteq> [] then online_loop lines (distros @ [strip line])
      else online_loop lines distros)"

text \<open>\<open>WSLTool.list_online_distributions\<close>: \<open>except Exception: return []\<close>.\<close>

definition list_online_distributions :: "subprocess_run \<Rightarrow> pyexc + pystr list" where
  "list_online_distributions run =
     (case run [find_wsl, asc ''-l'', asc ''--online''] 30 of
        Inr result \<Rightarrow>
          (if p_returncode result = 0 then
             let lines = split_on 10 (strip (p_stdout result))
             in Inr (online_loop (drop 1 lines) [])
           else Inr [])
      | Inl e \<Rightarrow> Inr [])"

text \<open>
  \<open>WSLTool.get_wsl_version\<close>: no \<open>try\<close>, so what \<open>subprocess.run\<close> raises leaves the
  method. The fallback text reads ``cannot obtain the WSL version''.
\<close>

definition get_wsl_version :: "subprocess_run \<Rightarrow> pyexc + pystr" where
  "get_wsl_version run =
     (case run [find_wsl, asc ''--version''] 10 of
        Inr result \<Rightarrow>
          Inr (if p_returncode result = 0 then strip (p_stdout result)
               else [0x65E0, 0x6CD5, 0x83B7, 0x53D6] @ asc ''WSL'' @ [0x7248, 0x672C])
      | Inl e \<Rightarrow> Inl e)"

text \<open>The keys of an environment descriptor: name, state, version.\<close>

definition k_name :: pystr where "k_name = [0x540D, 0x79F0]"
definition k_state :: pystr where "k_state = [0x72B6, 0x6001]"
definition k_version :: pystr where "k_version = [0x7248, 0x672C]"

text \<open>
  The loop of \<open>WSLTool.list_distributions\<close> over \<open>lines[1:]\<close>. \<open>parts[0]\<close> raises
  \<open>IndexError\<close> on an empty list; \<open>parts[1]\<close> and \<open>parts[2]\<close> are read under their length
  tests only.
\<close>

fun distributions_loop :: "pystr list \<Rightarrow> pydict list \<Rightarrow> pyexc + pydict list" where
  "distributions_loop [] distros = Inr distros"
| "distributions_loop (line # lines) distros =
     (if strip line \<noteq> [] then
        let parts = split_ws line in
          (case parts of
             [] \<Rightarrow> Inl IndexError
           | name # _ \<Rightarrow>
               distributions_loop lines
                 (distros @
                   [[(k_name, VStr name),
                     (k_state, VStr (if length parts > 1 then parts ! 1 else [])),
                     (k_version, VStr (if length parts > 2 then parts ! 2 else []))]]))
      else distributions_loop lines distros)"

text \<open>\<open>WSLTool.list_distributions\<close>: no \<open>try\<close>.\<close>

definition list_distributions :: "subprocess_run \<Rightarrow> pyexc + pydict list" where
  "list_distributions run =
     (case run [find_wsl, asc ''-l'', asc ''--verbose''] 10 of
        Inr result \<Rightarrow>
          (if p_returncode result = 0 then
             let lines = split_on 10 (strip (p_stdout result))
             in distributions_loop (drop 1 lines) []
           else Inr [])
      | Inl e \<Rightarrow> Inl e)"

text \<open>\<open>WSLTool.get_default_distribution\<close>: no \<open>try\<close>.\<close>

definition get_default_distribution :: "subprocess_run \<Rightarrow> pyexc + pystr" where
  "get_default_distribution run =
     (case run [find_wsl, asc ''-e'', asc ''echo'', asc ''$WSL_DISTRO_NAME''] 10 of
        Inr result \<Rightarrow> Inr (if p_returncode result = 0 then strip (p_stdout result) else [])
      | Inl e \<Rightarrow> Inl e)"

section \<open>Path translation\<close>

text \<open>
  \<open>WSLTool.convert_windows_path\<close> (core/wsl.py). The two \<open>replace\<close> calls act on the
  text after the colon only; the prefix \<open>/mnt/<drive>/\<close> is put in front afterwards.
  \<open>to_lower\<close> is the lower-case table of the Unicode database.
\<close>

definition convert_windows_path :: "(nat \<Rightarrow> pystr) \<Rightarrow> pystr \<Rightarrow> pystr" where
  "convert_windows_path to_lower windows_path =
     (if length windows_path \<ge> 2 \<and> [windows_path ! 1] = asc '':'' then
        let drive = lower_char to_lower (windows_path ! 0);
            wsl_path = asc ''/mnt/'' @ drive @ asc ''/'' @
                         replace (asc ''//'') (asc ''/'')
                           (replace bsl (asc ''/'') (drop 2 windows_path))
        in wsl_path
      else windows_path)"

text \<open>
  \<open>WSLTool.convert_to_windows_path\<close> (core/wsl.py). \<open>to_upper\<close> is the upper-case table
  of the Unicode database.
\<close>

definition convert_to_windows_path :: "(nat \<Rightarrow> pystr) \<Rightarrow> pystr \<Rightarrow> pystr" where
  "convert_to_windows_path to_upper wsl_path =
     (if prefix (asc ''/mnt/'') wsl_path then
        let parts = split_on (of_char CHR ''/'') wsl_path in
          if length parts \<ge> 3 then
            let drive = upper to_upper (parts ! 2);
                windows_path = drive @ asc '':'' @ bsl @ join (asc ''/'') (drop 3 parts)
            in replace (asc ''/'') bsl windows_path
          else wsl_path
      else wsl_path)"

text \<open>
  The spec's reading of a drive prefix: a letter followed by a colon. The code never
  tests for a letter; this predicate is the spec's, used to state the spec's fallback rule.
\<close>

definition spec_letter :: "nat \<Rightarrow> bool" where
  "spec_letter c \<longleftrightarrow> (65 \<le> c \<and> c \<le> 90) \<or> (97 \<le> c \<and> c \<le> 122)"

definition spec_drive_letter_colon_prefix :: "pystr \<Rightarrow> bool" where
  "spec_drive_letter_colon_prefix p \<longleftrightarrow>
     (case p of d # c # rest \<Rightarrow> spec_letter d \<and> c = of_char CHR '':'' | _ \<Rightarrow> False)"

section \<open>Environment directory operations (tools/file_manager.py)\<close>

text \<open>
  The keys of the result dictionaries. The source writes them in Chinese; each constant is
  the key's code points, with its meaning in the name.
\<close>

definition k_success :: pystr where "k_success = [0x6210, 0x529F]"
definition k_error :: pystr where "k_error = [0x9519, 0x8BEF]"
definition k_message :: pystr where "k_message = [0x6D88, 0x606F]"
definition k_file_path :: pystr where "k_file_path = [0x6587, 0x4EF6, 0x8DEF, 0x5F84]"
definition k_content :: pystr where "k_content = [0x5185, 0x5BB9]"
definition k_encoding :: pystr where "k_encoding = [0x7F16, 0x7801]"
definition k_dir_path :: pystr where "k_dir_path = [0x76EE, 0x5F55, 0x8DEF, 0x5F84]"
definition k_perms :: pystr where "k_perms = [0x6743, 0x9650]"
definition k_type :: pystr where "k_type = [0x7C7B, 0x578B]"
definition k_item_count :: pystr where "k_item_count = [0x9879, 0x76EE, 0x6570, 0x91CF]"
definition k_path :: pystr where "k_path = [0x8DEF, 0x5F84]"
definition k_source :: pystr where "k_source = [0x6E90, 0x8DEF, 0x5F84]"
definition k_destination :: pystr where "k_destination = [0x76EE, 0x6807, 0x8DEF, 0x5F84]"
definition k_details :: pystr where "k_details = [0x8BE6, 0x7EC6, 0x4FE1, 0x606F]"
definition k_exists :: pystr where "k_exists = [0x5B58, 0x5728]"
definition k_is_dir :: pystr where "k_is_dir = [0x662F, 0x76EE, 0x5F55]"
definition k_is_file :: pystr where "k_is_file = [0x662F, 0x6587, 0x4EF6]"
definition k_current_dir :: pystr where "k_current_dir = [0x5F53, 0x524D, 0x76EE, 0x5F55]"
definition k_new_dir :: pystr where "k_new_dir = [0x65B0, 0x76EE, 0x5F55]"
definition k_target_dir :: pystr where "k_target_dir = [0x76EE, 0x6807, 0x76EE, 0x5F55]"
definition k_start_line :: pystr where "k_start_line = [0x8D77, 0x59CB, 0x884C]"
definition k_end_line :: pystr where "k_end_line = [0x7ED3, 0x675F, 0x884C]"
definition k_pattern :: pystr where "k_pattern = [0x641C, 0x7D22, 0x6A21, 0x5F0F]"
definition k_match_count :: pystr where "k_match_count = [0x5339, 0x914D, 0x884C, 0x6570]"
definition k_matches :: pystr where "k_matches = [0x5339, 0x914D, 0x7ED3, 0x679C]"
definition k_line_count :: pystr where "k_line_count = [0x884C, 0x6570]"


text \<open>The fixed texts that the operations put into their results.\<close>

text \<open>``directory''\<close>

definition label_directory :: pystr where "label_directory = [0x76EE, 0x5F55]"

text \<open>``file''\<close>

definition label_file :: pystr where "label_file = [0x6587, 0x4EF6]"

text \<open>``file written''\<close>

definition msg_written :: pystr where
  "msg_written = [0x6587, 0x4EF6, 0x5199, 0x5165, 0x6210, 0x529F]"

text \<open>``content appended''\<close>

definition msg_appended :: pystr where
  "msg_appended = [0x5185, 0x5BB9, 0x8FFD, 0x52A0, 0x6210, 0x529F]"

text \<open>``directory created''\<close>

definition msg_dir_created :: pystr where
  "msg_dir_created = [0x76EE, 0x5F55, 0x521B, 0x5EFA, 0x6210, 0x529F]"

text \<open>``deleted''\<close>

definition msg_deleted :: pystr where "msg_deleted = [0x5220, 0x9664, 0x6210, 0x529F]"

text \<open>``copied''\<close>

definition msg_copied :: pystr where "msg_copied = [0x590D, 0x5236, 0x6210, 0x529F]"

text \<open>``moved''\<close>

definition msg_moved :: pystr where "msg_moved = [0x79FB, 0x52A8, 0x6210, 0x529F]"

text \<open>``cannot parse the number of lines''\<close>

definition msg_count_unparsable :: pystr where
  "msg_count_unparsable = [0x65E0, 0x6CD5, 0x89E3, 0x6790, 0x884C, 0x6570]"

text \<open>The single quote, U+0027.\<close>

abbreviation (input) sq :: pystr where
  "sq \<equiv> [0x27]"

text \<open>The double quote, U+0022.\<close>

abbreviation (input) dq :: pystr where
  "dq \<equiv> [0x22]"

text \<open>
  Every operation calls \<open>wsl_tool.execute_command(command)\<close>, the simple run with its
  default timeout of 30 seconds, on the process-wide \<open>wsl_tool\<close>; \<open>run\<close> is the child
  behind it.
\<close>

text \<open>
  \<open>read_file\<close>. The \<open>try\<close> around the success branch guards an assignment, which cannot
  raise.
\<close>

definition read_file :: "subprocess_run \<Rightarrow> pystr \<Rightarrow> pystr \<Rightarrow> pyexc + pydict" where
  "read_file run file_path encoding =
     (let command = asc ''cat '' @ sq @ file_path @ sq in
      case execute_command run command 30 of
        Inl e \<Rightarrow> Inl e
      | Inr result \<Rightarrow>
          Inr (if returncode result = 0 then
                 let content = stdout result in
                   [(k_success, VBool True), (k_file_path, VStr file_path),
                    (k_content, VStr content), (k_encoding, VStr encoding)]
               else
                 [(k_success, VBool False), (k_file_path, VStr file_path),
                  (k_error, VStr (stderr result))]))"

text \<open>\<open>write_file\<close>.\<close>

definition write_file :: "subprocess_run \<Rightarrow> pystr \<Rightarrow> pystr \<Rightarrow> pystr \<Rightarrow> pyexc + pydict" where
  "write_file run file_path content encoding =
     (let escaped_content = replace sq (sq @ dq @ sq @ dq @ sq) content;
          command = asc ''echo '' @ sq @ escaped_content @ sq @ asc '' > '' @ sq @ file_path @ sq
      in case execute_command run command 30 of
        Inl e \<Rightarrow> Inl e
      | Inr result \<Rightarrow>
          Inr (if returncode result = 0 then
                 [(k_success, VBool True), (k_file_path, VStr file_path),
                  (k_message, VStr msg_written)]
               else
                 [(k_success, VBool False), (k_file_path, VStr file_path),
                  (k_error, VStr (stderr result))]))"

text \<open>\<open>append_to_file\<close>.\<close>

definition append_to_file :: "subprocess_run \<Rightarrow> pystr \<Rightarrow> pystr \<Rightarrow> pystr \<Rightarrow> pyexc + pydict" where
  "append_to_file run file_path content encoding =
     (let escaped_content = replace sq (sq @ dq @ sq @ dq @ sq) content;
          command = asc ''echo '' @ sq @ escaped_content @ sq @ asc '' >> '' @ sq @ file_path @ sq
      in case execute_command run command 30 of
        Inl e \<Rightarrow> Inl e
      | Inr result \<Rightarrow>
          Inr (if returncode result = 0 then
                 [(k_success, VBool True), (k_file_path, VStr file_path),
                  (k_message, VStr msg_appended)]
               else
                 [(k_success, VBool False), (k_file_path, VStr file_path),
                  (k_error, VStr (stderr result))]))"

text \<open>\<open>create_directory\<close>.\<close>

definition create_directory :: "subprocess_run \<Rightarrow> pystr \<Rightarrow> bool \<Rightarrow> pyexc + pydict" where
  "create_directory run dir_path parents =
     (let command = (if parents then asc ''mkdir -p '' @ sq @ dir_path @ sq
                     else asc ''mkdir '' @ sq @ dir_path @ sq)
      in case execute_command run command 30 of
        Inl e \<Rightarrow> Inl e
      | Inr result \<Rightarrow>
          Inr (if returncode result = 0 then
                 [(k_success, VBool True), (k_dir_path, VStr dir_path),
                  (k_message, VStr msg_dir_created)]
               else
                 [(k_success, VBool False), (k_dir_path, VStr dir_path),
                  (k_error, VStr (stderr result))]))"

text \<open>
  The loop of \<open>list_directory\<close> over the lines of the listing; the second argument is the
  list \<open>items\<close> built so far. \<open>parts[0]\<close> and \<open>parts[8:]\<close> are read under the test
  \<open>len(parts) >= 9\<close> only.
\<close>

fun directory_loop :: "pystr list \<Rightarrow> pydict list \<Rightarrow> pydict list" where
  "directory_loop [] items = items"
| "directory_loop (line # lines) items =
     (if line \<noteq> [] then
        let parts = split_ws line in
          if length parts \<ge> 9 then
            let perms = parts ! 0;
                name = join (asc '' '') (drop 8 parts);
                is_dir = prefix (asc ''d'') perms
            in directory_loop lines
                 (items @
                   [[(k_name, VStr name), (k_perms, VStr perms),
                     (k_type, VStr (if is_dir then label_directory else label_file))]])
          else directory_loop lines items
      else directory_loop lines items)"

text \<open>\<open>list_directory\<close>.\<close>

definition list_directory :: "subprocess_run \<Rightarrow> pystr \<Rightarrow> pyexc + pydict" where
  "list_directory run dir_path =
     (let command = asc ''ls -la '' @ sq @ dir_path @ sq in
      case execute_command run command 30 of
        Inl e \<Rightarrow> Inl e
      | Inr result \<Rightarrow>
          Inr (if returncode result = 0 then
                 let lines = split_on 10 (strip (stdout result));
                     items = directory_loop lines []
                 in [(k_success, VBool True), (k_dir_path, VStr dir_path),
                     (k_item_count, VInt (int (length items))),
                     (k_content, VList (map VDict items))]
               else
                 [(k_success, VBool False), (k_dir_path, VStr dir_path),
                  (k_error, VStr (stderr result))]))"

text \<open>\<open>delete_file\<close>.\<close>

definition delete_file :: "subprocess_run \<Rightarrow> pystr \<Rightarrow> bool \<Rightarrow> pyexc + pydict" where
  "delete_file run file_path recursive =
     (let command = (if recursive then asc ''rm -rf '' @ sq @ file_path @ sq
                     else asc ''rm -f '' @ sq @ file_path @ sq)
      in case execute_command run command 30 of
        Inl e \<Rightarrow> Inl e
      | Inr result \<Rightarrow>
          Inr (if returncode result = 0 then
                 [(k_success, VBool True), (k_path, VStr file_path),
                  (k_message, VStr msg_deleted)]
               else
                 [(k_success, VBool False), (k_path, VStr file_path),
                  (k_error, VStr (stderr result))]))"

text \<open>\<open>copy_file\<close>.\<close>

definition copy_file :: "subprocess_run \<Rightarrow> pystr \<Rightarrow> pystr \<Rightarrow> bool \<Rightarrow> pyexc + pydict" where
  "copy_file run source destination recursive =
     (let command =
            (if recursive then asc ''cp -r '' @ sq @ source @ sq @ asc '' '' @ sq @ destination @ sq
             else asc ''cp '' @ sq @ source @ sq @ asc '' '' @ sq @ destination @ sq)
      in case execute_command run command 30 of
        Inl e \<Rightarrow> Inl e
      | Inr result \<Rightarrow>
          Inr (if returncode result = 0 then
                 [(k_success, VBool True), (k_source, VStr source),
                  (k_destination, VStr destination), (k_message, VStr msg_copied)]
               else
                 [(k_success, VBool False), (k_source, VStr source),
                  (k_destination, VStr destination), (k_error, VStr (stderr result))]))"

text \<open>\<open>move_file\<close>.\<close>

definition move_file :: "subprocess_run \<Rightarrow> pystr \<Rightarrow> pystr \<Rightarrow> pyexc + pydict" where
  "move_file run source destination =
     (let command = asc ''mv '' @ sq @ source @ sq @ asc '' '' @ sq @ destination @ sq in
      case execute_command run command 30 of
        Inl e \<Rightarrow> Inl e
      | Inr result \<Rightarrow>
          Inr (if returncode result = 0 then
                 [(k_success, VBool True), (k_source, VStr source),
                  (k_destination, VStr destination), (k_message, VStr msg_moved)]
               else
                 [(k_success, VBool False), (k_source, VStr source),
                  (k_destination, VStr destination), (k_error, VStr (stderr result))]))"

text \<open>\<open>get_file_info\<close>.\<close>

definition get_file_info :: "subprocess_run \<Rightarrow> pystr \<Rightarrow> pyexc + pydict" where
  "get_file_info run file_path =
     (let command = asc ''stat '' @ sq @ file_path @ sq in
      case execute_command run command 30 of
        Inl e \<Rightarrow> Inl e
      | Inr result \<Rightarrow>
          Inr (if returncode result = 0 then
                 [(k_success, VBool True), (k_path, VStr file_path),
                  (k_details, VStr (stdout result))]
               else
                 [(k_success, VBool False), (k_path, VStr file_path),
                  (k_error, VStr (stderr result))]))"

text \<open>
  \<open>file_exists\<close>, \<open>is_directory\<close> and \<open>is_file\<close>: the exit code of the run is not read;
  the answer is the comparison of \<open>stdout\<close> with the word the shell command echoes.
\<close>

definition file_exists :: "subprocess_run \<Rightarrow> pystr \<Rightarrow> pyexc + pydict" where
  "file_exists run file_path =
     (let command = asc ''if [ -e '' @ sq @ file_path @ sq @ asc '' ]; then echo '' @ sq @
                    asc ''exists'' @ sq @ asc ''; else echo '' @ sq @ asc ''not_exists'' @ sq @
                    asc ''; fi''
      in case execute_command run command 30 of
        Inl e \<Rightarrow> Inl e
      | Inr result \<Rightarrow>
          (let exists = (stdout result = asc ''exists'') in
           Inr [(k_success, VBool True), (k_path, VStr file_path), (k_exists, VBool exists)]))"

definition is_directory :: "subprocess_run \<Rightarrow> pystr \<Rightarrow> pyexc + pydict" where
  "is_directory run path =
     (let command = asc ''if [ -d '' @ sq @ path @ sq @ asc '' ]; then echo '' @ sq @
                    asc ''dir'' @ sq @ asc ''; else echo '' @ sq @ asc ''not_dir'' @ sq @
                    asc ''; fi''
      in case execute_command run command 30 of
        Inl e \<Rightarrow> Inl e
      | Inr result \<Rightarrow>
          (let is_dir = (stdout result = asc ''dir'') in
           Inr [(k_success, VBool True), (k_path, VStr path), (k_is_dir, VBool is_dir)]))"

definition is_file :: "subprocess_run \<Rightarrow> pystr \<Rightarrow> pyexc + pydict" where
  "is_file run path =
     (let command = asc ''if [ -f '' @ sq @ path @ sq @ asc '' ]; then echo '' @ sq @
                    asc ''file'' @ sq @ asc ''; else echo '' @ sq @ asc ''not_file'' @ sq @
                    asc ''; fi''
      in case execute_command run command 30 of
        Inl e \<Rightarrow> Inl e
      | Inr result \<Rightarrow>
          (let is_file' = (stdout result = asc ''file'') in
           Inr [(k_success, VBool True), (k_path, VStr path), (k_is_file, VBool is_file')]))"

text \<open>\<open>get_current_directory\<close>.\<close>

definition get_current_directory :: "subprocess_run \<Rightarrow> pyexc + pydict" where
  "get_current_directory run =
     (case execute_command run (asc ''pwd'') 30 of
        Inl e \<Rightarrow> Inl e
      | Inr result \<Rightarrow>
          Inr (if returncode result = 0 then
                 [(k_success, VBool True), (k_current_dir, VStr (stdout result))]
               else
                 [(k_success, VBool False), (k_error, VStr (stderr result))]))"

text \<open>\<open>change_directory\<close>.\<close>

definition change_directory :: "subprocess_run \<Rightarrow> pystr \<Rightarrow> pyexc + pydict" where
  "change_directory run dir_path =
     (let command = asc ''cd '' @ sq @ dir_path @ sq @ asc '' && pwd'' in
      case execute_command run command 30 of
        Inl e \<Rightarrow> Inl e
      | Inr result \<Rightarrow>
          Inr (if returncode result = 0 then
                 [(k_success, VBool True), (k_new_dir, VStr (stdout result))]
               else
                 [(k_success, VBool False), (k_target_dir, VStr dir_path),
                  (k_error, VStr (stderr result))]))"

text \<open>
  \<open>read_file_lines\<close>. \<open>end_line\<close> is \<open>Optional[int]\<close>; the test \<open>if end_line:\<close> fails
  for \<open>None\<close> and for 0.
\<close>

definition read_file_lines ::
  "subprocess_run \<Rightarrow> pystr \<Rightarrow> int \<Rightarrow> int option \<Rightarrow> pystr \<Rightarrow> pyexc + pydict" where
  "read_file_lines run file_path start_line end_line encoding =
     (let command =
            (case end_line of
               Some n \<Rightarrow>
                 (if n \<noteq> 0 then
                    asc ''sed -n '' @ sq @ str_int start_line @ asc '','' @ str_int n @
                    asc ''p'' @ sq @ asc '' '' @ sq @ file_path @ sq
                  else
                    asc ''sed -n '' @ sq @ str_int start_line @ asc '',$p'' @ sq @ asc '' '' @
                    sq @ file_path @ sq)
             | None \<Rightarrow>
                 asc ''sed -n '' @ sq @ str_int start_line @ asc '',$p'' @ sq @ asc '' '' @
                 sq @ file_path @ sq)
      in case execute_command run command 30 of
        Inl e \<Rightarrow> Inl e
      | Inr result \<Rightarrow>
          Inr (if returncode result = 0 then
                 [(k_success, VBool True), (k_file_path, VStr file_path),
                  (k_start_line, VInt start_line),
                  (k_end_line, (case end_line of None \<Rightarrow> VNone | Some n \<Rightarrow> VInt n)),
                  (k_content, VStr (stdout result))]
               else
                 [(k_success, VBool False), (k_file_path, VStr file_path),
                  (k_error, VStr (stderr result))]))"

text \<open>\<open>search_in_file\<close>.\<close>

definition search_in_file :: "subprocess_run \<Rightarrow> pystr \<Rightarrow> pystr \<Rightarrow> bool \<Rightarrow> pyexc + pydict" where
  "search_in_file run file_path pattern use_regex =
     (let command =
            (if use_regex then
               asc ''grep -n '' @ sq @ pattern @ sq @ asc '' '' @ sq @ file_path @ sq
             else
               asc ''grep -nF '' @ sq @ pattern @ sq @ asc '' '' @ sq @ file_path @ sq)
      in case execute_command run command 30 of
        Inl e \<Rightarrow> Inl e
      | Inr result \<Rightarrow>
          Inr (if returncode result = 0 then
                 let lines = (if stdout result \<noteq> [] then split_on 10 (strip (stdout result))
                              else [])
                 in [(k_success, VBool True), (k_file_path, VStr file_path),
                     (k_pattern, VStr pattern),
                     (k_match_count, VInt (int (length lines))),
                     (k_matches, VList (map VStr lines))]
               else
                 [(k_success, VBool False), (k_file_path, VStr file_path),
                  (k_pattern, VStr pattern), (k_error, VStr (stderr result))]))"

text \<open>
  \<open>count_lines\<close>. The \<open>try\<close> covers \<open>split()[0]\<close>, which raises \<open>IndexError\<close> on an empty
  list, and \<open>int\<close>, which raises \<open>ValueError\<close>; the handler takes both. \<open>int\<close> is the
  interpreter's built-in, with its own digit table and its own limit on the number of
  digits: it is the parameter \<open>py_int\<close>, where \<open>None\<close> stands for \<open>ValueError\<close>.
\<close>

definition count_lines ::
  "subprocess_run \<Rightarrow> (pystr \<Rightarrow> int option) \<Rightarrow> pystr \<Rightarrow> pyexc + pydict" where
  "count_lines run py_int file_path =
     (let command = asc ''wc -l '' @ sq @ file_path @ sq in
      case execute_command run command 30 of
        Inl e \<Rightarrow> Inl e
      | Inr result \<Rightarrow>
          Inr (if returncode result = 0 then
                 (case split_ws (strip (stdout result)) of
                    [] \<Rightarrow>
                      [(k_success, VBool False), (k_file_path, VStr file_path),
                       (k_error, VStr msg_count_unparsable)]
                  | token # _ \<Rightarrow>
                      (case py_int token of
                         None \<Rightarrow>
                           [(k_success, VBool False), (k_file_path, VStr file_path),
                            (k_error, VStr msg_count_unparsable)]
                       | Some line_count \<Rightarrow>
                           [(k_success, VBool True), (k_file_path, VStr file_path),
                            (k_line_count, VInt line_count)]))
               else
                 [(k_success, VBool False), (k_file_path, VStr file_path),
                  (k_error, VStr (stderr result))]))"

section \<open>Calls\<close>

text \<open>
  A call of one of the bridge operations that return a \<open>WSLCommandResult\<close>, with its
  arguments, and its execution by the operation of that name.
\<close>

datatype bridge_call =
    ExecuteCommand pystr int
  | ExecuteCommandWithDistro pystr pystr int
  | ExecuteCommandAdvanced pystr pystr pystr pystr pystr int
  | ShutdownWsl
  | TerminateDistribution pystr
  | SetDefaultDistribution pystr
  | ExportDistribution pystr pystr pystr
  | ImportDistribution pystr pystr pystr int
  | UnregisterDistribution pystr
  | GetWslStatus
  | InstallDistribution pystr bool bool

fun invoke :: "subprocess_run \<Rightarrow> bridge_call \<Rightarrow> pyexc + WSLCommandResult" where
  "invoke run (ExecuteCommand command timeout) = execute_command run command timeout"
| "invoke run (ExecuteCommandWithDistro command distribution timeout) =
     execute_command_with_distro run command distribution timeout"
| "invoke run (ExecuteCommandAdvanced command distribution user working_dir shell_type timeout) =
     execute_command_advanced run command distribution user working_dir shell_type timeout"
| "invoke run ShutdownWsl = shutdown_wsl run"
| "invoke run (TerminateDistribution distribution) = terminate_distribution run distribution"
| "invoke run (SetDefaultDistribution distribution) = set_default_distribution run distribution"
| "invoke run (ExportDistribution distribution file_path format_type) =
     export_distribution run distribution file_path format_type"
| "invoke run (ImportDistribution distribution install_location file_path version) =
     import_distribution run distribution install_location file_path version"
| "invoke run (UnregisterDistribution distribution) = unregister_distribution run distribution"
| "invoke run GetWslStatus = get_wsl_status run"
| "invoke run (InstallDistribution distribution web_download no_launch) =
     install_distribution run distribution web_download no_launch"

text \<open>The argument vector and the timeout of the child that a call starts.\<close>

fun child_argv :: "bridge_call \<Rightarrow> pystr list" where
  "child_argv (ExecuteCommand command timeout) = [find_wsl, asc ''sh'', asc ''-c'', command]"
| "child_argv (ExecuteCommandWithDistro command distribution timeout) =
     [find_wsl] @ (if distribution = [] then [] else [asc ''-d'', distribution]) @
     [asc ''sh'', asc ''-c'', command]"
| "child_argv (ExecuteCommandAdvanced command distribution user working_dir shell_type timeout) =
     [find_wsl] @ (if distribution = [] then [] else [asc ''-d'', distribution]) @
     (if user = [] then [] else [asc ''-u'', user]) @
     (if working_dir = [] then [] else [asc ''--cd'', working_dir]) @
     (if shell_type = [] then [] else [asc ''--shell-type'', shell_type]) @
     [asc ''--exec'', asc ''sh'', asc ''-c'', command]"
| "child_argv ShutdownWsl = [find_wsl, asc ''--shutdown'']"
| "child_argv (TerminateDistribution distribution) = [find_wsl, asc ''-t'', distribution]"
| "child_argv (SetDefaultDistribution distribution) = [find_wsl, asc ''-s'', distribution]"
| "child_argv (ExportDistribution distribution file_path format_type) =
     [find_wsl, asc ''--export'', distribution, file_path, asc ''--format'', format_type]"
| "child_argv (ImportDistribution distribution install_location file_path version) =
     [find_wsl, asc ''--import'', distribution, install_location, file_path, asc ''--version'',
      str_int version]"
| "child_argv (UnregisterDistribution distribution) =
     [find_wsl, asc ''--unregister'', distribution]"
| "child_argv GetWslStatus = [find_wsl, asc ''--status'']"
| "child_argv (InstallDistribution distribution web_download no_launch) =
     [find_wsl, asc ''--install''] @ (if distribution = [] then [] else [distribution]) @
     (if web_download then [asc ''--web-download''] else []) @
     (if no_launch then [asc ''--no-launch''] else [])"

fun child_timeout :: "bridge_call \<Rightarrow> int" where
  "child_timeout (ExecuteCommand command timeout) = timeout"
| "child_timeout (ExecuteCommandWithDistro command distribution timeout) = timeout"
| "child_timeout (ExecuteCommandAdvanced command distribution user working_dir shell_type timeout) =
     timeout"
| "child_timeout ShutdownWsl = 10"
| "child_timeout (TerminateDistribution distribution) = 10"
| "child_timeout (SetDefaultDistribution distribution) = 10"
| "child_timeout (ExportDistribution distribution file_path format_type) = 300"
| "child_timeout (ImportDistribution distribution install_location file_path version) = 300"
| "child_timeout (UnregisterDistribution distribution) = 30"
| "child_timeout GetWslStatus = 10"
| "child_timeout (InstallDistribution distribution web_download no_launch) = 300"

text \<open>The three run forms: the calls with a handler for \<open>TimeoutExpired\<close> of its own.\<close>

fun is_run :: "bridge_call \<Rightarrow> bool" where
  "is_run (ExecuteCommand command timeout) = True"
| "is_run (ExecuteCommandWithDistro command distribution timeout) = True"
| "is_run (ExecuteCommandAdvanced command distribution user working_dir shell_type timeout) = True"
| "is_run call = False"

text \<open>
  The calls whose \<open>stdout\<close> field is the captured output (the run forms and the status
  query), and for the others the confirmation they put there on exit code 0.
\<close>

fun passes_stdout :: "bridge_call \<Rightarrow> bool" where
  "passes_stdout GetWslStatus = True"
| "passes_stdout call = is_run call"

fun confirmation :: "bridge_call \<Rightarrow> pystr" where
  "confirmation ShutdownWsl = asc ''WSL'' @ [0x5DF2, 0x5173, 0x95ED]"
| "confirmation (TerminateDistribution distribution) =
     [0x53D1, 0x884C, 0x7248] @ asc '' '' @ distribution @ asc '' '' @ [0x5DF2, 0x7EC8, 0x6B62]"
| "confirmation (SetDefaultDistribution distribution) =
     distribution @ asc '' '' @ [0x5DF2, 0x8BBE, 0x4E3A, 0x9ED8, 0x8BA4, 0x53D1, 0x884C, 0x7248]"
| "confirmation (ExportDistribution distribution file_path format_type) =
     [0x53D1, 0x884C, 0x7248, 0x5DF2, 0x5BFC, 0x51FA, 0x5230] @ asc '' '' @ file_path"
| "confirmation (ImportDistribution distribution install_location file_path version) =
     [0x53D1, 0x884C, 0x7248] @ asc '' '' @ distribution @ asc '' '' @ [0x5DF2, 0x5BFC, 0x5165]"
| "confirmation (UnregisterDistribution distribution) =
     [0x53D1, 0x884C, 0x7248] @ asc '' '' @ distribution @ asc '' '' @ [0x5DF2, 0x6CE8, 0x9500]"
| "confirmation (InstallDistribution distribution web_download no_launch) =
     [0x6B63, 0x5728, 0x5B89, 0x88C5, 0x53D1, 0x884C, 0x7248] @ asc ''...''"
| "confirmation call = []"

text \<open>A simulated child: whatever the argument vector and the timeout, the same outcome.\<close>

definition simulated :: "pyexc + completed \<Rightarrow> subprocess_run" where
  "simulated outcome argv timeout = outcome"

text \<open>A simulated child that exits with 0 after printing its argument vector.\<close>

definition echo_argv :: subprocess_run where
  "echo_argv argv timeout = Inr (CompletedProcess 0 (join (asc '' '') argv) [])"

text \<open>
  A call of one of the environment directory operations, its execution by the operation
  of that name (\<open>py_int\<close> is the built-in \<open>int\<close>, for the line count), and the shell
  command that the operation hands to the simple run.
\<close>

datatype fm_call =
    ReadFile pystr pystr
  | WriteFile pystr pystr pystr
  | AppendToFile pystr pystr pystr
  | CreateDirectory pystr bool
  | ListDirectory pystr
  | DeleteFile pystr bool
  | CopyFile pystr pystr bool
  | MoveFile pystr pystr
  | GetFileInfo pystr
  | FileExists pystr
  | IsDirectory pystr
  | IsFile pystr
  | GetCurrentDirectory
  | ChangeDirectory pystr
  | ReadFileLines pystr int "int option" pystr
  | SearchInFile pystr pystr bool
  | CountLines pystr

fun perform ::
  "subprocess_run \<Rightarrow> (pystr \<Rightarrow> int option) \<Rightarrow> fm_call \<Rightarrow> pyexc + pydict" where
  "perform run py_int (ReadFile file_path encoding) = read_file run file_path encoding"
| "perform run py_int (WriteFile file_path content encoding) = write_file run file_path content encoding"
| "perform run py_int (AppendToFile file_path content encoding) =
     append_to_file run file_path content encoding"
| "perform run py_int (CreateDirectory dir_path parents) = create_directory run dir_path parents"
| "perform run py_int (ListDirectory dir_path) = list_directory run dir_path"
| "perform run py_int (DeleteFile file_path recursive) = delete_file run file_path recursive"
| "perform run py_int (CopyFile source destination recursive) =
     copy_file run source destination recursive"
| "perform run py_int (MoveFile source destination) = move_file run source destination"
| "perform run py_int (GetFileInfo file_path) = get_file_info run file_path"
| "perform run py_int (FileExists file_path) = file_exists run file_path"
| "perform run py_int (IsDirectory path) = is_directory run path"
| "perform run py_int (IsFile path) = is_file run path"
| "perform run py_int GetCurrentDirectory = get_current_directory run"
| "perform run py_int (ChangeDirectory dir_path) = change_directory run dir_path"
| "perform run py_int (ReadFileLines file_path start_line end_line encoding) =
     read_file_lines run file_path start_line end_line encoding"
| "perform run py_int (SearchInFile file_path pattern use_regex) =
     search_in_file run file_path pattern use_regex"
| "perform run py_int (CountLines file_path) = count_lines run py_int file_path"

fun shell_command :: "fm_call \<Rightarrow> pystr" where
  "shell_command (ReadFile file_path encoding) = asc ''cat '' @ sq @ file_path @ sq"
| "shell_command (WriteFile file_path content encoding) =
     asc ''echo '' @ sq @ replace sq (sq @ dq @ sq @ dq @ sq) content @ sq @ asc '' > '' @ sq @
     file_path @ sq"
| "shell_command (AppendToFile file_path content encoding) =
     asc ''echo '' @ sq @ replace sq (sq @ dq @ sq @ dq @ sq) content @ sq @ asc '' >> '' @ sq @
     file_path @ sq"
| "shell_command (CreateDirectory dir_path parents) =
     (if parents then asc ''mkdir -p '' else asc ''mkdir '') @ sq @ dir_path @ sq"
| "shell_command (ListDirectory dir_path) = asc ''ls -la '' @ sq @ dir_path @ sq"
| "shell_command (DeleteFile file_path recursive) =
     (if recursive then asc ''rm -rf '' else asc ''rm -f '') @ sq @ file_path @ sq"
| "shell_command (CopyFile source destination recursive) =
     (if recursive then asc ''cp -r '' else asc ''cp '') @ sq @ source @ sq @ asc '' '' @ sq @
     destination @ sq"
| "shell_command (MoveFile source destination) =
     asc ''mv '' @ sq @ source @ sq @ asc '' '' @ sq @ destination @ sq"
| "shell_command (GetFileInfo file_path) = asc ''stat '' @ sq @ file_path @ sq"
| "shell_command (FileExists file_path) =
     asc ''if [ -e '' @ sq @ file_path @ sq @ asc '' ]; then echo '' @ sq @ asc ''exists'' @ sq @
     asc ''; else echo '' @ sq @ asc ''not_exists'' @ sq @ asc ''; fi''"
| "shell_command (IsDirectory path) =
     asc ''if [ -d '' @ sq @ path @ sq @ asc '' ]; then echo '' @ sq @ asc ''dir'' @ sq @
     asc ''; else echo '' @ sq @ asc ''not_dir'' @ sq @ asc ''; fi''"
| "shell_command (IsFile path) =
     asc ''if [ -f '' @ sq @ path @ sq @ asc '' ]; then echo '' @ sq @ asc ''file'' @ sq @
     asc ''; else echo '' @ sq @ asc ''not_file'' @ sq @ asc ''; fi''"
| "shell_command GetCurrentDirectory = asc ''pwd''"
| "shell_command (ChangeDirectory dir_path) = asc ''cd '' @ sq @ dir_path @ sq @ asc '' && pwd''"
| "shell_command (ReadFileLines file_path start_line end_line encoding) =
     asc ''sed -n '' @ sq @ str_int start_line @
     (case end_line of
        None \<Rightarrow> asc '',$p''
      | Some n \<Rightarrow> (if n = 0 then asc '',$p'' else asc '','' @ str_int n @ asc ''p'')) @
     sq @ asc '' '' @ sq @ file_path @ sq"
| "shell_command (SearchInFile file_path pattern use_regex) =
     (if use_regex then asc ''grep -n '' else asc ''grep -nF '') @ sq @ pattern @ sq @
     asc '' '' @ sq @ file_path @ sq"
| "shell_command (CountLines file_path) = asc ''wc -l '' @ sq @ file_path @ sq"

text \<open>The existence and type checks.\<close>

fun is_check :: "fm_call \<Rightarrow> bool" where
  "is_check (FileExists file_path) = True"
| "is_check (IsDirectory path) = True"
| "is_check (IsFile path) = True"
| "is_check call = False"

text \<open>
  The line count, and whether its output starts with a token that the built-in \<open>int\<close>
  accepts.
\<close>

fun is_count :: "fm_call \<Rightarrow> bool" where
  "is_count (CountLines file_path) = True"
| "is_count call = False"

definition count_parses :: "(pystr \<Rightarrow> int option) \<Rightarrow> pystr \<Rightarrow> bool" where
  "count_parses py_int out \<longleftrightarrow>
     (case split_ws (strip out) of [] \<Rightarrow> False | token # _ \<Rightarrow> py_int token \<noteq> None)"

text \<open>
  What a result dictionary reports: success, or failure with an error detail.
\<close>

definition reports_success :: "pydict \<Rightarrow> bool" where
  "reports_success d \<longleftrightarrow> map_of d k_success = Some (VBool True)"

definition reports_failure :: "pydict \<Rightarrow> pystr \<Rightarrow> bool" where
  "reports_failure d detail \<longleftrightarrow>
     map_of d k_success = Some (VBool False) \<and> map_of d k_error = Some (VStr detail)"

section \<open>Properties of the path translation\<close>

lemma convert_windows_path_no_colon:
  "length p < 2 \<or> p ! 1 \<noteq> of_char CHR '':'' \<Longrightarrow> convert_windows_path to_lower p = p"
  by (auto simp: convert_windows_path_def)

lemma convert_windows_path_colon:
  assumes "length p \<ge> 2" and "p ! 1 = of_char CHR '':''"
  shows "convert_windows_path to_lower p \<noteq> p"
proof
  assume eq: "convert_windows_path to_lower p = p"
  have "convert_windows_path to_lower p ! 1 = 109"
    using assms by (simp add: convert_windows_path_def Let_def)
  with eq assms show False by simp
qed

lemma convert_to_windows_path_no_mnt:
  "\<not> prefix (asc ''/mnt/'') q \<Longrightarrow> convert_to_windows_path to_upper q = q"
  by (simp add: convert_to_windows_path_def)

text \<open>
  For every path with a backslash right after the drive prefix, the translation has a
  doubled slash after the drive letter.
\<close>

lemma collapse_keeps_leading_slash:
  "\<exists>tail. replace (asc ''//'') (asc ''/'') (47 # r) = 47 # tail"
  by (cases r) auto

lemma convert_windows_path_absolute:
  "\<exists>tail. convert_windows_path to_lower (d # 58 # 0x5C # rest) =
            asc ''/mnt/'' @ lower_char to_lower d @ asc ''//'' @ tail"
proof -
  obtain tail where
    "replace (asc ''//'') (asc ''/'') (47 # replace bsl (asc ''/'') rest) = 47 # tail"
    using collapse_keeps_leading_slash by blast
  then show ?thesis
    by (simp add: convert_windows_path_def Let_def)
qed

text \<open>
  C2. The docstring example of \<open>convert_windows_path\<close>: \<open>C:\Users\Name\<close> should become
  \<open>/mnt/c/Users/Name\<close>, with no doubled slash. The code returns \<open>/mnt/c//Users/Name\<close>:
  the text after the colon starts with a separator, doubled slashes are collapsed in that
  text alone, and the prefix that is put in front ends in a slash too. The other direction
  of the example holds: \<open>/mnt/c/Users/Name\<close> becomes \<open>C:\Users\Name\<close>. The text is ASCII, so
  this is so whatever the case tables.
\<close>

theorem convert_windows_path_example_doubled_slash:
  "convert_windows_path to_lower (asc ''C:'' @ bsl @ asc ''Users'' @ bsl @ asc ''Name'')
     = asc ''/mnt/c//Users/Name''
   \<and> convert_windows_path to_lower (asc ''C:'' @ bsl @ asc ''Users'' @ bsl @ asc ''Name'')
     \<noteq> asc ''/mnt/c/Users/Name''
   \<and> convert_to_windows_path to_upper (asc ''/mnt/c/Users/Name'')
     = asc ''C:'' @ bsl @ asc ''Users'' @ bsl @ asc ''Name''"
  by (simp add: convert_windows_path_def convert_to_windows_path_def upper_def
      lower_char_def upper_char_def)

text \<open>
  C1. The round trip over canonical paths. Starting from the host path \<open>C:\a\b\<close> the code
  comes back with \<open>C:\\a\b\<close> (two backslashes after the colon), and starting from the
  guest path \<open>/mnt/c/a/b\<close> it comes back with \<open>/mnt/c//a/b\<close>: neither round trip
  reproduces its input, whatever the case tables.
\<close>

theorem round_trip_fails_on_canonical_paths:
  "convert_to_windows_path to_upper
       (convert_windows_path to_lower (asc ''C:'' @ bsl @ asc ''a'' @ bsl @ asc ''b''))
     = asc ''C:'' @ bsl @ bsl @ asc ''a'' @ bsl @ asc ''b''
   \<and> convert_to_windows_path to_upper
       (convert_windows_path to_lower (asc ''C:'' @ bsl @ asc ''a'' @ bsl @ asc ''b''))
     \<noteq> asc ''C:'' @ bsl @ asc ''a'' @ bsl @ asc ''b''
   \<and> convert_windows_path to_lower (convert_to_windows_path to_upper (asc ''/mnt/c/a/b''))
     = asc ''/mnt/c//a/b''
   \<and> convert_windows_path to_lower (convert_to_windows_path to_upper (asc ''/mnt/c/a/b''))
     \<noteq> asc ''/mnt/c/a/b''"
  by (simp add: convert_windows_path_def convert_to_windows_path_def upper_def
      lower_char_def upper_char_def)

text \<open>
  C6, as the spec states it, fails: \<open>1:x\<close> has no drive letter before its colon, and the
  code translates it all the same, to \<open>/mnt/1/x\<close>.
\<close>

theorem fallback_counterexample:
  "\<not> spec_drive_letter_colon_prefix (asc ''1:x'')
   \<and> convert_windows_path no_case_pairs (asc ''1:x'') = asc ''/mnt/1/x''
   \<and> convert_windows_path no_case_pairs (asc ''1:x'') \<noteq> asc ''1:x''"
  by (simp add: spec_drive_letter_colon_prefix_def spec_letter_def convert_windows_path_def
      lower_char_def)

text \<open>
  C6, amended. \<open>convert_windows_path\<close> returns its input unchanged exactly when the input
  is shorter than two characters or its second character is not a colon (the first
  character is not examined); and \<open>convert_to_windows_path\<close> returns unchanged every
  input that does not start with \<open>/mnt/\<close>. Both hold whatever the case tables.
\<close>

theorem identity_fallback:
  "(convert_windows_path to_lower p = p \<longleftrightarrow> length p < 2 \<or> p ! 1 \<noteq> of_char CHR '':'')
   \<and> (\<not> prefix (asc ''/mnt/'') q \<longrightarrow> convert_to_windows_path to_upper q = q)"
proof (intro conjI impI)
  show "convert_windows_path to_lower p = p \<longleftrightarrow> length p < 2 \<or> p ! 1 \<noteq> of_char CHR '':''"
    using convert_windows_path_no_colon [of p to_lower]
      convert_windows_path_colon [of p to_lower]
    by (metis not_le_imp_less)
  show "convert_to_windows_path to_upper q = q" if "\<not> prefix (asc ''/mnt/'') q"
    using that by (rule convert_to_windows_path_no_mnt)
qed

theorem identity_fallback_witness:
  "\<not> prefix (asc ''/mnt/'') (asc ''/home/u'')
   \<and> convert_to_windows_path no_case_pairs (asc ''/home/u'') = asc ''/home/u''
   \<and> convert_windows_path no_case_pairs (asc ''relative/path'') = asc ''relative/path''"
  using identity_fallback [of no_case_pairs "asc ''relative/path''" "asc ''/home/u''" no_case_pairs]
  by simp

section \<open>Properties of the text operations\<close>

lemma strip_eq_Nil: "strip s = [] \<longleftrightarrow> (\<forall>c\<in>set s. is_space c)"
proof
  assume "strip s = []"
  then have "dropWhile is_space s = []"
    unfolding strip_def
    by (metis dropWhile_eq_Nil_conv hd_dropWhile list.set_sel(1) rev_is_Nil_conv set_rev)
  then show "\<forall>c\<in>set s. is_space c" by simp
next
  assume "\<forall>c\<in>set s. is_space c"
  then show "strip s = []"
    by (auto simp: strip_def dest: set_dropWhileD)
qed

lemma tokens_eq_Nil: "tokens cur s = [] \<longleftrightarrow> cur = [] \<and> (\<forall>c\<in>set s. is_space c)"
  by (induction s arbitrary: cur) auto

text \<open>A line has a first token exactly when it is not blank.\<close>

lemma split_ws_eq_Nil: "split_ws s = [] \<longleftrightarrow> strip s = []"
  by (simp add: split_ws_def tokens_eq_Nil strip_eq_Nil)

lemma split_on_not_Nil: "split_on sep s \<noteq> []"
  by (induction s) (auto split: list.splits)

text \<open>
  What \<open>strip\<close> removes is whitespace at the two ends and nothing else, and what it
  leaves neither starts nor ends with whitespace.
\<close>

lemma strip_decompose:
  "s = takeWhile is_space s @ strip s @ rev (takeWhile is_space (rev (dropWhile is_space s)))"
proof -
  let ?t = "dropWhile is_space s"
  have "?t = rev (takeWhile is_space (rev ?t) @ dropWhile is_space (rev ?t))" by simp
  also have "\<dots> = rev (dropWhile is_space (rev ?t)) @ rev (takeWhile is_space (rev ?t))"
    by (rule rev_append)
  finally have "?t = strip s @ rev (takeWhile is_space (rev ?t))"
    unfolding strip_def .
  moreover have "s = takeWhile is_space s @ ?t" by simp
  ultimately show ?thesis by metis
qed

lemma strip_trimmed:
  "\<exists>a b. s = a @ strip s @ b \<and> (\<forall>c\<in>set a. is_space c) \<and> (\<forall>c\<in>set b. is_space c)"
proof (intro exI conjI)
  show "s = takeWhile is_space s @ strip s @ rev (takeWhile is_space (rev (dropWhile is_space s)))"
    by (rule strip_decompose)
  show "\<forall>c\<in>set (takeWhile is_space s). is_space c"
    by (auto dest: set_takeWhileD)
  show "\<forall>c\<in>set (rev (takeWhile is_space (rev (dropWhile is_space s)))). is_space c"
    by (auto dest: set_takeWhileD)
qed

lemma strip_ends:
  assumes "strip s \<noteq> []"
  shows "\<not> is_space (hd (strip s))" and "\<not> is_space (last (strip s))"
proof -
  let ?t = "dropWhile is_space s"
  let ?u = "dropWhile is_space (rev ?t)"
  have u: "?u \<noteq> []" using assms by (simp add: strip_def)
  then have "\<not> is_space (hd ?u)" by (rule hd_dropWhile)
  then show "\<not> is_space (last (strip s))"
    using u by (simp add: strip_def last_rev)
  have t: "?t \<noteq> []"
  proof
    assume empty: "?t = []"
    have "?u = []" unfolding empty by simp
    with u show False by simp
  qed
  then have ht: "\<not> is_space (hd ?t)" by (rule hd_dropWhile)
  have "s = takeWhile is_space s @ ?t" by simp
  with strip_decompose [of s]
  have "takeWhile is_space s @ ?t =
        takeWhile is_space s @ strip s @ rev (takeWhile is_space (rev ?t))"
    by simp
  then have "?t = strip s @ rev (takeWhile is_space (rev ?t))"
    by (simp only: same_append_eq)
  then have "hd ?t = hd (strip s)" using assms by (metis hd_append2)
  with ht show "\<not> is_space (hd (strip s))" by simp
qed

section \<open>Properties of the command bridge\<close>

lemmas bridge_defs = execute_command_def execute_command_with_distro_def
  execute_command_advanced_def shutdown_wsl_def
  terminate_distribution_def set_default_distribution_def export_distribution_def
  import_distribution_def unregister_distribution_def get_wsl_status_def
  install_distribution_def

text \<open>The simple run returns an outcome whatever the child does.\<close>

lemma execute_command_returns: "\<exists>r. execute_command run command timeout = Inr r"
  by (simp add: execute_command_def split: sum.splits pyexc.splits)

lemma invoke_timeout:
  "run (child_argv call) (child_timeout call) = Inl (TimeoutExpired m) \<Longrightarrow>
   invoke run call =
     Inr \<lparr>returncode = - 1, stdout = [],
          stderr = (if is_run call then timeout_message else m)\<rparr>"
  by (cases call) (auto simp add: bridge_defs Let_def split: if_splits)

lemma invoke_launch_error:
  "run (child_argv call) (child_timeout call) = Inl (LaunchError m) \<Longrightarrow>
   invoke run call = Inr \<lparr>returncode = - 1, stdout = [], stderr = m\<rparr>"
  by (cases call) (auto simp add: bridge_defs Let_def split: if_splits)

lemma invoke_completed:
  "run (child_argv call) (child_timeout call) = Inr (CompletedProcess rc out err) \<Longrightarrow>
   invoke run call =
     Inr \<lparr>returncode = rc,
          stdout = (if passes_stdout call then strip out
                    else if rc = 0 then confirmation call else []),
          stderr = strip err\<rparr>"
  by (cases call) (auto simp add: bridge_defs Let_def split: if_splits)

lemma list_distributions_completed:
  "run [find_wsl, asc ''-l'', asc ''--verbose''] 10 = Inr (CompletedProcess rc out err) \<Longrightarrow>
   list_distributions run =
     (if rc = 0 then distributions_loop (drop 1 (split_on 10 (strip out))) [] else Inr [])"
  by (simp add: list_distributions_def)

lemma list_online_completed:
  "run [find_wsl, asc ''-l'', asc ''--online''] 30 = Inr (CompletedProcess rc out err) \<Longrightarrow>
   list_online_distributions run =
     (if rc = 0 then Inr (online_loop (drop 1 (split_on 10 (strip out))) []) else Inr [])"
  by (simp add: list_online_distributions_def)

lemma list_online_raised:
  "run [find_wsl, asc ''-l'', asc ''--online''] 30 = Inl e \<Longrightarrow>
   list_online_distributions run = Inr []"
  by (simp add: list_online_distributions_def)

text \<open>
  The methods without a \<open>try\<close>: what \<open>subprocess.run\<close> raises, a timeout or a launch
  failure alike, leaves \<open>list_distributions\<close>, \<open>get_wsl_version\<close> and
  \<open>get_default_distribution\<close> as an exception.
\<close>

lemma list_distributions_raised:
  "run [find_wsl, asc ''-l'', asc ''--verbose''] 10 = Inl e \<Longrightarrow> list_distributions run = Inl e"
  by (simp add: list_distributions_def)

lemma get_wsl_version_raised:
  "run [find_wsl, asc ''--version''] 10 = Inl e \<Longrightarrow> get_wsl_version run = Inl e"
  by (simp add: get_wsl_version_def)

lemma get_default_distribution_raised:
  "run [find_wsl, asc ''-e'', asc ''echo'', asc ''$WSL_DISTRO_NAME''] 10 = Inl e \<Longrightarrow>
   get_default_distribution run = Inl e"
  by (simp add: get_default_distribution_def)

text \<open>
  C3, as the spec states it, fails: the listing of the distributions available online is
  a lifecycle command, and when its child times out it returns the empty list, not an
  outcome with exit code -1 and a timeout message.
\<close>

theorem list_online_timeout_counterexample:
  "list_online_distributions (simulated (Inl (TimeoutExpired (asc ''timed out'')))) = Inr []"
  by (simp add: list_online_distributions_def simulated_def)

text \<open>
  C3, amended. For every bridge operation that returns a \<open>WSLCommandResult\<close> (the three
  run forms, shutdown, terminate, set-default, export, import, unregister, status and
  install): when the child does not complete within the timeout the operation returns
  exit code -1, empty stdout, and in stderr the fixed, non-empty timeout message for the
  run forms and the text of the timeout exception for the others; when the child cannot
  be started it returns exit code -1, empty stdout and the error text in stderr. No
  exception leaves these operations in either case. The listing of the online
  distributions returns the empty list in both cases.
\<close>

theorem bridge_failure_outcomes:
  "(run (child_argv call) (child_timeout call) = Inl (TimeoutExpired m) \<longrightarrow>
      invoke run call =
        Inr \<lparr>returncode = - 1, stdout = [],
             stderr = (if is_run call then timeout_message else m)\<rparr>)
   \<and> (run (child_argv call) (child_timeout call) = Inl (LaunchError m) \<longrightarrow>
      invoke run call = Inr \<lparr>returncode = - 1, stdout = [], stderr = m\<rparr>)
   \<and> timeout_message \<noteq> []
   \<and> (run [find_wsl, asc ''-l'', asc ''--online''] 30 = Inl e \<longrightarrow>
      list_online_distributions run = Inr [])"
  using invoke_timeout [of run call m] invoke_launch_error [of run call m]
    list_online_raised [of run e]
  by (simp add: timeout_message_def)

theorem bridge_failure_outcomes_witness:
  "invoke (simulated (Inl (TimeoutExpired (asc ''timed out'')))) (ExecuteCommand (asc ''ls'') 5)
     = Inr \<lparr>returncode = - 1, stdout = [], stderr = timeout_message\<rparr>
   \<and> invoke (simulated (Inl (TimeoutExpired (asc ''timed out'')))) ShutdownWsl
     = Inr \<lparr>returncode = - 1, stdout = [], stderr = asc ''timed out''\<rparr>
   \<and> invoke (simulated (Inl (LaunchError (asc ''not found'')))) (ExecuteCommand (asc ''ls'') 5)
     = Inr \<lparr>returncode = - 1, stdout = [], stderr = asc ''not found''\<rparr>
   \<and> list_online_distributions (simulated (Inl (LaunchError (asc ''not found'')))) = Inr []"
  using bridge_failure_outcomes [of "simulated (Inl (TimeoutExpired (asc ''timed out'')))"
           "ExecuteCommand (asc ''ls'') 5" "asc ''timed out''"]
        bridge_failure_outcomes [of "simulated (Inl (TimeoutExpired (asc ''timed out'')))"
           ShutdownWsl "asc ''timed out''"]
        bridge_failure_outcomes [of "simulated (Inl (LaunchError (asc ''not found'')))"
           "ExecuteCommand (asc ''ls'') 5" "asc ''not found''" "LaunchError (asc ''not found'')"]
  by (simp add: simulated_def)

text \<open>
  C5, as the spec states it, fails: \<open>shutdown_wsl\<close> discards what the child wrote to its
  standard output. A child that exits with 0 after printing \<open>done\<close> gives an outcome
  whose stdout is the confirmation built by the operation.
\<close>

theorem shutdown_stdout_counterexample:
  "shutdown_wsl (simulated (Inr (CompletedProcess 0 (asc ''done'') [])))
     = Inr \<lparr>returncode = 0, stdout = asc ''WSL'' @ [0x5DF2, 0x5173, 0x95ED], stderr = []\<rparr>
   \<and> asc ''WSL'' @ [0x5DF2, 0x5173, 0x95ED] \<noteq> strip (asc ''done'')"
  by (simp add: shutdown_wsl_def simulated_def strip_def is_space_def)

text \<open>
  C5, amended. When the child completes, every bridge operation that returns a
  \<open>WSLCommandResult\<close> puts the child's exit code and its captured stderr, trimmed, into
  the outcome. The stdout field is the child's captured stdout, trimmed, for the three run
  forms and the status query; for shutdown, terminate, set-default, export, import,
  unregister and install it is a confirmation built by the operation when the exit code
  is 0, and empty otherwise.
\<close>

theorem bridge_output_fields:
  "run (child_argv call) (child_timeout call) = Inr (CompletedProcess rc out err) \<Longrightarrow>
   invoke run call =
     Inr \<lparr>returncode = rc,
          stdout = (if passes_stdout call then strip out
                    else if rc = 0 then confirmation call else []),
          stderr = strip err\<rparr>"
  by (rule invoke_completed)

theorem bridge_output_fields_witness:
  "invoke (simulated (Inr (CompletedProcess 0 (asc ''hello'' @ [10]) [])))
       (ExecuteCommand (asc ''echo hello'') 5)
     = Inr \<lparr>returncode = 0, stdout = asc ''hello'', stderr = []\<rparr>
   \<and> invoke (simulated (Inr (CompletedProcess 1 (asc ''x'') (asc '' no such distro ''))))
       (TerminateDistribution (asc ''Foo''))
     = Inr \<lparr>returncode = 1, stdout = [], stderr = asc ''no such distro''\<rparr>"
  using bridge_output_fields [of "simulated (Inr (CompletedProcess 0 (asc ''hello'' @ [10]) []))"
          "ExecuteCommand (asc ''echo hello'') 5" 0 "asc ''hello'' @ [10]" "[]"]
        bridge_output_fields [of
          "simulated (Inr (CompletedProcess 1 (asc ''x'') (asc '' no such distro '')))"
          "TerminateDistribution (asc ''Foo'')" 1 "asc ''x''" "asc '' no such distro ''"]
  by (simp add: simulated_def strip_def is_space_def)

text \<open>The two loops over the lines of a listing, in closed form.\<close>

lemma online_loop_eq:
  "online_loop lines distros = distros @ filter (\<lambda>l. l \<noteq> []) (map strip lines)"
  by (induction lines arbitrary: distros) auto

lemma distributions_loop_eq:
  "distributions_loop lines distros =
     Inr (distros @ concat (map (\<lambda>line.
       if strip line = [] then []
       else [[(k_name, VStr (hd (split_ws line))),
              (k_state, VStr (if 1 < length (split_ws line) then split_ws line ! 1 else [])),
              (k_version, VStr (if 2 < length (split_ws line) then split_ws line ! 2 else []))]])
       lines))"
proof (induction lines arbitrary: distros)
  case Nil
  show ?case by simp
next
  case (Cons line lines)
  show ?case
  proof (cases "strip line = []")
    case True
    then show ?thesis using Cons.IH by simp
  next
    case False
    then obtain name rest where parts: "split_ws line = name # rest"
      by (metis split_ws_eq_Nil list.exhaust)
    show ?thesis using False parts Cons.IH by (simp add: Let_def)
  qed
qed

text \<open>
  C7. The advanced run starts its child with the argument vector that consists of the
  launcher, then \<open>-d\<close> and the distribution exactly when the distribution is not empty,
  then \<open>-u\<close> and the user exactly when the user is not empty, then \<open>--cd\<close> and the
  working directory exactly when it is not empty, then \<open>--shell-type\<close> and the shell
  type exactly when it is not empty, then \<open>--exec sh -c\<close> and the command; its outcome
  is what the child does on this vector and the given timeout. An empty option puts
  nothing into the vector.
\<close>

theorem advanced_argument_vector:
  "execute_command_advanced run command distribution user working_dir shell_type timeout =
     (case run ([find_wsl]
                @ (if distribution = [] then [] else [asc ''-d'', distribution])
                @ (if user = [] then [] else [asc ''-u'', user])
                @ (if working_dir = [] then [] else [asc ''--cd'', working_dir])
                @ (if shell_type = [] then [] else [asc ''--shell-type'', shell_type])
                @ [asc ''--exec'', asc ''sh'', asc ''-c'', command]) timeout of
        Inr result \<Rightarrow>
          Inr \<lparr>returncode = p_returncode result,
               stdout = strip (p_stdout result),
               stderr = strip (p_stderr result)\<rparr>
      | Inl (TimeoutExpired m) \<Rightarrow>
          Inr \<lparr>returncode = - 1, stdout = [], stderr = timeout_message\<rparr>
      | Inl e \<Rightarrow>
          Inr \<lparr>returncode = - 1, stdout = [], stderr = str_exc e\<rparr>)"
  by (simp add: execute_command_advanced_def Let_def)

theorem advanced_argument_vector_witness:
  "execute_command_advanced echo_argv (asc ''ls'') (asc ''Ubuntu'') (asc ''root'') (asc ''~'')
       (asc ''login'') 5
     = Inr \<lparr>returncode = 0,
            stdout = asc ''wsl.exe -d Ubuntu -u root --cd ~ --shell-type login --exec sh -c ls'',
            stderr = []\<rparr>
   \<and> execute_command_advanced echo_argv (asc ''ls'') [] (asc ''root'') [] [] 5
     = Inr \<lparr>returncode = 0, stdout = asc ''wsl.exe -u root --exec sh -c ls'', stderr = []\<rparr>
   \<and> execute_command_advanced echo_argv (asc ''ls'') [] [] [] [] 5
     = Inr \<lparr>returncode = 0, stdout = asc ''wsl.exe --exec sh -c ls'', stderr = []\<rparr>"
proof -
  have trimmed:
    "strip (asc ''wsl.exe -d Ubuntu -u root --cd ~ --shell-type login --exec sh -c ls'')
       = asc ''wsl.exe -d Ubuntu -u root --cd ~ --shell-type login --exec sh -c ls''"
    "strip (asc ''wsl.exe -u root --exec sh -c ls'') = asc ''wsl.exe -u root --exec sh -c ls''"
    "strip (asc ''wsl.exe --exec sh -c ls'') = asc ''wsl.exe --exec sh -c ls''"
    "strip [] = []"
    by (simp_all add: strip_def is_space_def)
  show ?thesis
    using trimmed
      advanced_argument_vector [of echo_argv "asc ''ls''" "asc ''Ubuntu''" "asc ''root''"
        "asc ''~''" "asc ''login''" 5]
      advanced_argument_vector [of echo_argv "asc ''ls''" "[]" "asc ''root''" "[]" "[]" 5]
      advanced_argument_vector [of echo_argv "asc ''ls''" "[]" "[]" "[]" "[]" 5]
    by (simp add: echo_argv_def find_wsl_def)
qed

text \<open>
  C9. In the listing of the installed distributions every line that is not blank has a
  first token, which becomes the name; the state is the second token and the version the
  third, and each is the empty string when the line has no such token. A line of one
  token gives empty state and version, a line of two gives an empty version. When the
  child exits with 0, \<open>list_distributions\<close> returns exactly these descriptors, one for
  each line after the first of the trimmed output that is not blank, in order: no line,
  however short, makes it raise.
\<close>

theorem descriptor_parsing:
  "(strip line \<noteq> [] \<longrightarrow> split_ws line \<noteq> [])
   \<and> distributions_loop lines [] =
       Inr (concat (map (\<lambda>line.
         if strip line = [] then []
         else [[(k_name, VStr (hd (split_ws line))),
                (k_state, VStr (if 1 < length (split_ws line) then split_ws line ! 1 else [])),
                (k_version, VStr (if 2 < length (split_ws line) then split_ws line ! 2 else []))]])
         lines))
   \<and> (split_ws line = [n] \<longrightarrow>
        distributions_loop [line] [] =
          Inr [[(k_name, VStr n), (k_state, VStr []), (k_version, VStr [])]])
   \<and> (split_ws line = [n, s] \<longrightarrow>
        distributions_loop [line] [] =
          Inr [[(k_name, VStr n), (k_state, VStr s), (k_version, VStr [])]])
   \<and> (run [find_wsl, asc ''-l'', asc ''--verbose''] 10 = Inr (CompletedProcess 0 out err) \<longrightarrow>
        list_distributions run =
          Inr (concat (map (\<lambda>line.
            if strip line = [] then []
            else [[(k_name, VStr (hd (split_ws line))),
                   (k_state, VStr (if 1 < length (split_ws line) then split_ws line ! 1 else [])),
                   (k_version, VStr (if 2 < length (split_ws line) then split_ws line ! 2
                                     else []))]])
            (drop 1 (split_on 10 (strip out))))))"
proof (intro conjI impI)
  show "split_ws line \<noteq> []" if "strip line \<noteq> []"
    using that by (simp add: split_ws_eq_Nil)
  show "distributions_loop lines [] =
       Inr (concat (map (\<lambda>line.
         if strip line = [] then []
         else [[(k_name, VStr (hd (split_ws line))),
                (k_state, VStr (if 1 < length (split_ws line) then split_ws line ! 1 else [])),
                (k_version, VStr (if 2 < length (split_ws line) then split_ws line ! 2 else []))]])
         lines))"
    by (simp add: distributions_loop_eq)
  show "distributions_loop [line] [] =
          Inr [[(k_name, VStr n), (k_state, VStr []), (k_version, VStr [])]]"
    if "split_ws line = [n]"
  proof -
    have "strip line \<noteq> []" using that split_ws_eq_Nil [of line] by auto
    then show ?thesis using that by (simp add: distributions_loop_eq)
  qed
  show "distributions_loop [line] [] =
          Inr [[(k_name, VStr n), (k_state, VStr s), (k_version, VStr [])]]"
    if "split_ws line = [n, s]"
  proof -
    have "strip line \<noteq> []" using that split_ws_eq_Nil [of line] by auto
    then show ?thesis using that by (simp add: distributions_loop_eq)
  qed
  show "list_distributions run =
          Inr (concat (map (\<lambda>line.
            if strip line = [] then []
            else [[(k_name, VStr (hd (split_ws line))),
                   (k_state, VStr (if 1 < length (split_ws line) then split_ws line ! 1 else [])),
                   (k_version, VStr (if 2 < length (split_ws line) then split_ws line ! 2
                                     else []))]])
            (drop 1 (split_on 10 (strip out)))))"
    if "run [find_wsl, asc ''-l'', asc ''--verbose''] 10 = Inr (CompletedProcess 0 out err)"
    using that list_distributions_completed [of run 0 out err]
    by (simp add: distributions_loop_eq)
qed

theorem descriptor_parsing_witness:
  "list_distributions
     (simulated (Inr (CompletedProcess 0
        (asc ''NAME STATE VERSION'' @ [10] @ asc ''Ubuntu Running 2'' @ [10] @ [10] @
         asc ''Alpine Stopped'' @ [10] @ asc ''  Debian '' @ [10]) [])))
   = Inr [[(k_name, VStr (asc ''Ubuntu'')), (k_state, VStr (asc ''Running'')),
           (k_version, VStr (asc ''2''))],
          [(k_name, VStr (asc ''Alpine'')), (k_state, VStr (asc ''Stopped'')),
           (k_version, VStr [])],
          [(k_name, VStr (asc ''Debian'')), (k_state, VStr []), (k_version, VStr [])]]
   \<and> strip (asc ''  Debian '') \<noteq> []
   \<and> split_ws (asc ''  Debian '') = [asc ''Debian'']
   \<and> distributions_loop [asc ''  Debian ''] [] =
       Inr [[(k_name, VStr (asc ''Debian'')), (k_state, VStr []), (k_version, VStr [])]]
   \<and> split_ws (asc ''Alpine Stopped'') = [asc ''Alpine'', asc ''Stopped'']
   \<and> distributions_loop [asc ''Alpine Stopped''] [] =
       Inr [[(k_name, VStr (asc ''Alpine'')), (k_state, VStr (asc ''Stopped'')),
             (k_version, VStr [])]]"
proof -
  have a: "split_ws (asc ''  Debian '') = [asc ''Debian'']"
    by (simp add: split_ws_def is_space_def)
  have b: "split_ws (asc ''Alpine Stopped'') = [asc ''Alpine'', asc ''Stopped'']"
    by (simp add: split_ws_def is_space_def)
  have c: "split_ws (asc ''Ubuntu Running 2'') = [asc ''Ubuntu'', asc ''Running'', asc ''2'']"
    by (simp add: split_ws_def is_space_def)
  have d: "strip (asc ''  Debian '') \<noteq> []" "strip (asc ''Alpine Stopped'') \<noteq> []"
    "strip (asc ''Ubuntu Running 2'') \<noteq> []" "strip [] = []"
    by (simp_all add: strip_def is_space_def)
  have lines:
    "split_on 10 (strip (asc ''NAME STATE VERSION'' @ [10] @ asc ''Ubuntu Running 2'' @ [10] @
        [10] @ asc ''Alpine Stopped'' @ [10] @ asc ''  Debian '' @ [10]))
     = [asc ''NAME STATE VERSION'', asc ''Ubuntu Running 2'', [], asc ''Alpine Stopped'',
        asc ''  Debian'']"
    by (simp add: strip_def is_space_def)
  have e: "split_ws (asc ''  Debian'') = [asc ''Debian'']" "strip (asc ''  Debian'') \<noteq> []"
    by (simp_all add: split_ws_def strip_def is_space_def)
  show ?thesis
    using a b c d e lines
      descriptor_parsing [of "asc ''  Debian ''" "[]" "asc ''Debian''" _
        "simulated (Inr (CompletedProcess 0
          (asc ''NAME STATE VERSION'' @ [10] @ asc ''Ubuntu Running 2'' @ [10] @ [10] @
           asc ''Alpine Stopped'' @ [10] @ asc ''  Debian '' @ [10]) []))"
        "asc ''NAME STATE VERSION'' @ [10] @ asc ''Ubuntu Running 2'' @ [10] @ [10] @
           asc ''Alpine Stopped'' @ [10] @ asc ''  Debian '' @ [10]" "[]"]
      descriptor_parsing [of "asc ''Alpine Stopped''" "[]" "asc ''Alpine''" "asc ''Stopped''"]
    by (simp add: simulated_def)
qed

text \<open>
  C10. Both listings return the empty list when the launcher exits with a code other
  than 0, and the online listing returns it on every exception as well. A successful
  listing that holds a header and nothing else returns the empty list too, so the result
  does not tell a failure from an empty listing. On exit code 0 the trimmed output always
  has a first line, and the result is computed from the lines after it.
\<close>

theorem failed_listing_is_empty:
  "(run [find_wsl, asc ''-l'', asc ''--verbose''] 10 = Inr (CompletedProcess rc out err)
      \<and> rc \<noteq> 0 \<longrightarrow> list_distributions run = Inr [])
   \<and> (run [find_wsl, asc ''-l'', asc ''--online''] 30 = Inr (CompletedProcess rc out err)
      \<and> rc \<noteq> 0 \<longrightarrow> list_online_distributions run = Inr [])
   \<and> (run [find_wsl, asc ''-l'', asc ''--online''] 30 = Inl e \<longrightarrow>
        list_online_distributions run = Inr [])
   \<and> list_distributions (simulated (Inr (CompletedProcess 0 (asc ''NAME STATE VERSION'') [])))
       = Inr []
   \<and> list_online_distributions (simulated (Inr (CompletedProcess 0 (asc ''NAME FRIENDLY NAME'') [])))
       = Inr []
   \<and> split_on 10 (strip out) \<noteq> []
   \<and> (run [find_wsl, asc ''-l'', asc ''--verbose''] 10 = Inr (CompletedProcess 0 out err)
      \<and> split_on 10 (strip out) = header # rest \<longrightarrow>
        list_distributions run = distributions_loop rest [])
   \<and> (run [find_wsl, asc ''-l'', asc ''--online''] 30 = Inr (CompletedProcess 0 out err)
      \<and> split_on 10 (strip out) = header # rest \<longrightarrow>
        list_online_distributions run = Inr (filter (\<lambda>l. l \<noteq> []) (map strip rest)))"
proof (intro conjI impI)
  show "list_distributions (simulated (Inr (CompletedProcess 0 (asc ''NAME STATE VERSION'') [])))
       = Inr []"
    by (simp add: list_distributions_def simulated_def strip_def is_space_def)
  show "list_online_distributions (simulated (Inr (CompletedProcess 0 (asc ''NAME FRIENDLY NAME'') [])))
       = Inr []"
    by (simp add: list_online_distributions_def simulated_def strip_def is_space_def)
  show "split_on 10 (strip out) \<noteq> []" by (rule split_on_not_Nil)
qed (auto simp add: list_distributions_completed list_online_completed list_online_raised
       online_loop_eq)

theorem failed_listing_is_empty_witness:
  "list_distributions (simulated (Inr (CompletedProcess 1 [] (asc ''no such option'')))) = Inr []
   \<and> list_online_distributions (simulated (Inr (CompletedProcess 1 [] (asc ''offline''))))
       = Inr []
   \<and> list_online_distributions (simulated (Inl (LaunchError (asc ''not found'')))) = Inr []
   \<and> list_online_distributions
        (simulated (Inr (CompletedProcess 0
           (asc ''NAME'' @ [10] @ asc ''Ubuntu'' @ [10] @ [10] @ asc '' Debian '') [])))
       = Inr [asc ''Ubuntu'', asc ''Debian'']"
proof -
  have lines: "split_on 10 (strip (asc ''NAME'' @ [10] @ asc ''Ubuntu'' @ [10] @ [10] @ asc '' Debian ''))
               = asc ''NAME'' # [asc ''Ubuntu'', [], asc '' Debian'']"
    by (simp add: strip_def is_space_def)
  have trimmed: "strip (asc '' Debian'') = asc ''Debian''" "strip (asc ''Ubuntu'') = asc ''Ubuntu''"
    "strip [] = []"
    by (simp_all add: strip_def is_space_def)
  show ?thesis
    using lines trimmed
      failed_listing_is_empty [of "simulated (Inr (CompletedProcess 1 [] (asc ''no such option'')))"
        1 "[]" "asc ''no such option''"]
      failed_listing_is_empty [of "simulated (Inr (CompletedProcess 1 [] (asc ''offline'')))"
        1 "[]" "asc ''offline''"]
      failed_listing_is_empty [of "simulated (Inl (LaunchError (asc ''not found'')))"
        0 "[]" "[]" "LaunchError (asc ''not found'')"]
      failed_listing_is_empty [of
        "simulated (Inr (CompletedProcess 0
           (asc ''NAME'' @ [10] @ asc ''Ubuntu'' @ [10] @ [10] @ asc '' Debian '') []))"
        0 "asc ''NAME'' @ [10] @ asc ''Ubuntu'' @ [10] @ [10] @ asc '' Debian ''" "[]" _
        "asc ''NAME''" "[asc ''Ubuntu'', [], asc '' Debian'']"]
    by (simp add: simulated_def)
qed

section \<open>Properties of the environment directory operations\<close>

lemmas keys =
  k_name_def k_state_def k_version_def k_success_def k_error_def k_message_def k_file_path_def
  k_content_def k_encoding_def k_dir_path_def k_perms_def k_type_def k_item_count_def
  k_path_def k_source_def k_destination_def k_details_def k_exists_def k_is_dir_def
  k_is_file_def k_current_dir_def k_new_dir_def k_target_dir_def k_start_line_def
  k_end_line_def k_pattern_def k_match_count_def k_matches_def k_line_count_def

lemmas fm_defs = read_file_def write_file_def append_to_file_def create_directory_def
  list_directory_def delete_file_def copy_file_def move_file_def get_file_info_def
  file_exists_def is_directory_def is_file_def get_current_directory_def change_directory_def
  read_file_lines_def search_in_file_def count_lines_def

text \<open>The loop over the lines of a directory listing, in closed form.\<close>

lemma directory_loop_eq:
  "directory_loop lines items =
     items @ concat (map (\<lambda>line.
       if 9 \<le> length (split_ws line) then
         [[(k_name, VStr (join (asc '' '') (drop 8 (split_ws line)))),
           (k_perms, VStr (split_ws line ! 0)),
           (k_type, VStr (if prefix (asc ''d'') (split_ws line ! 0) then label_directory
                          else label_file))]]
       else []) lines)"
proof (induction lines arbitrary: items)
  case Nil
  show ?case by simp
next
  case (Cons line lines)
  show ?case
  proof (cases "line = []")
    case True
    then show ?thesis using Cons.IH by (simp add: split_ws_def)
  next
    case False
    then show ?thesis using Cons.IH by (simp add: Let_def)
  qed
qed

text \<open>No operation raises: each returns a result dictionary.\<close>

lemma execute_command_not_Inl: "execute_command run command timeout \<noteq> Inl e"
  using execute_command_returns [of run command timeout] by auto

lemma perform_returns: "\<exists>d. perform run py_int call = Inr d"
  by (cases call) (simp_all add: fm_defs Let_def execute_command_not_Inl split: sum.splits)

lemma perform_nonzero:
  assumes "execute_command run (shell_command call) 30 = Inr result"
    and "\<not> is_check call" and "returncode result \<noteq> 0"
  shows "\<exists>d. perform run py_int call = Inr d \<and> reports_failure d (stderr result)"
  using assms
  by (cases call)
     (auto simp add: fm_defs Let_def reports_failure_def keys split: option.splits if_splits)

lemma perform_zero:
  assumes "execute_command run (shell_command call) 30 = Inr result"
    and "\<not> is_check call" and "returncode result = 0" and "\<not> is_count call"
  shows "\<exists>d. perform run py_int call = Inr d \<and> reports_success d"
  using assms
  by (cases call)
     (auto simp add: fm_defs Let_def reports_success_def keys split: option.splits if_splits)

lemma perform_count:
  assumes "execute_command run (shell_command call) 30 = Inr result"
    and "is_count call" and "returncode result = 0"
  shows "\<exists>d. perform run py_int call = Inr d
           \<and> (reports_success d \<longleftrightarrow> count_parses py_int (stdout result))
           \<and> (\<not> count_parses py_int (stdout result) \<longrightarrow>
                reports_failure d msg_count_unparsable)"
  using assms
  by (cases call)
     (auto simp add: fm_defs Let_def reports_success_def reports_failure_def count_parses_def keys
        split: option.splits list.splits)

lemma not_both: "reports_failure d detail \<Longrightarrow> \<not> reports_success d"
  by (simp add: reports_failure_def reports_success_def)

text \<open>
  The three checks do not read the exit code of their run. Each returns a dictionary
  whose success flag is true and which has no error detail, and answers whether the
  stdout of the outcome is the word its command echoes; so does \<open>file_exists\<close> after a
  run that ended with exit code 1.
\<close>

lemma perform_check:
  assumes "execute_command run (shell_command call) 30 = Inr result" and "is_check call"
  shows "\<exists>d. perform run py_int call = Inr d \<and> reports_success d"
  using assms by (cases call) (simp_all add: fm_defs Let_def reports_success_def keys)

lemma file_exists_ignores_exit_code:
  "file_exists (simulated (Inr (CompletedProcess 1 [] (asc ''sh: not found'')))) (asc ''/x'')
     = Inr [(k_success, VBool True), (k_path, VStr (asc ''/x'')), (k_exists, VBool False)]"
  by (simp add: execute_command_def file_exists_def simulated_def strip_def is_space_def Let_def)

text \<open>
  C4, as the spec states it, fails: when the simple run of \<open>wc -l\<close> ends with exit code 0
  and prints nothing, \<open>count_lines\<close> reports failure, with a detail of its own. (There
  is no first token, so the built-in \<open>int\<close> is not reached.)
\<close>

theorem count_lines_counterexample:
  "execute_command (simulated (Inr (CompletedProcess 0 [] [])))
       (shell_command (CountLines (asc ''/x''))) 30
     = Inr \<lparr>returncode = 0, stdout = [], stderr = []\<rparr>
   \<and> count_lines (simulated (Inr (CompletedProcess 0 [] []))) Map.empty (asc ''/x'')
     = Inr [(k_success, VBool False), (k_file_path, VStr (asc ''/x'')),
            (k_error, VStr msg_count_unparsable)]"
  by (simp add: execute_command_def count_lines_def simulated_def strip_def split_ws_def
      Let_def)

text \<open>
  C4, amended. Let \<open>result\<close> be the outcome of the simple run of the operation's shell
  command. Every operation other than the three existence and type checks reports
  failure, with the stderr of \<open>result\<close> as the error detail, when the exit code is not 0.
  Every operation other than the checks and the line count reports success when the exit
  code is 0. The line count reports success on exit code 0 exactly when the output starts
  with a token that the built-in \<open>int\<close> accepts, and failure with a fixed detail
  otherwise. Nothing is stated about the three checks.
\<close>

theorem exit_code_contract:
  assumes "execute_command run (shell_command call) 30 = Inr result"
    and "\<not> is_check call"
  shows "\<exists>d. perform run py_int call = Inr d
     \<and> (returncode result \<noteq> 0 \<longrightarrow> reports_failure d (stderr result) \<and> \<not> reports_success d)
     \<and> (\<not> is_count call \<and> returncode result = 0 \<longrightarrow> reports_success d)
     \<and> (is_count call \<and> returncode result = 0 \<longrightarrow>
          (reports_success d \<longleftrightarrow> count_parses py_int (stdout result))
          \<and> (\<not> count_parses py_int (stdout result) \<longrightarrow>
               reports_failure d msg_count_unparsable))"
proof -
  obtain d where d: "perform run py_int call = Inr d"
    using perform_returns by blast
  have "reports_failure d (stderr result) \<and> \<not> reports_success d"
    if "returncode result \<noteq> 0"
    using perform_nonzero [OF assms that, of py_int] d not_both by auto
  moreover have "reports_success d"
    if "\<not> is_count call" "returncode result = 0"
    using perform_zero [OF assms that(2,1), of py_int] d by auto
  moreover have "(reports_success d \<longleftrightarrow> count_parses py_int (stdout result))
          \<and> (\<not> count_parses py_int (stdout result) \<longrightarrow>
               reports_failure d msg_count_unparsable)"
    if "is_count call" "returncode result = 0"
    using perform_count [OF assms(1) that, of py_int] d by auto
  ultimately show ?thesis using d by blast
qed

theorem exit_code_contract_witness:
  "execute_command (simulated (Inr (CompletedProcess 1 [] (asc ''cat: /x: No such file''))))
       (shell_command (ReadFile (asc ''/x'') (asc ''utf-8''))) 30
     = Inr \<lparr>returncode = 1, stdout = [], stderr = asc ''cat: /x: No such file''\<rparr>
   \<and> \<not> is_check (ReadFile (asc ''/x'') (asc ''utf-8''))
   \<and> (\<exists>d. perform (simulated (Inr (CompletedProcess 1 [] (asc ''cat: /x: No such file''))))
              Map.empty (ReadFile (asc ''/x'') (asc ''utf-8'')) = Inr d
          \<and> reports_failure d (asc ''cat: /x: No such file'') \<and> \<not> reports_success d)
   \<and> execute_command (simulated (Inr (CompletedProcess 0 (asc ''12 /x'' @ [10]) [])))
       (shell_command (CountLines (asc ''/x''))) 30
     = Inr \<lparr>returncode = 0, stdout = asc ''12 /x'', stderr = []\<rparr>
   \<and> (\<exists>d. perform (simulated (Inr (CompletedProcess 0 (asc ''12 /x'' @ [10]) [])))
              [asc ''12'' \<mapsto> 12] (CountLines (asc ''/x'')) = Inr d
          \<and> reports_success d)"
proof -
  have h: "execute_command (simulated (Inr (CompletedProcess 1 [] (asc ''cat: /x: No such file''))))
       (shell_command (ReadFile (asc ''/x'') (asc ''utf-8''))) 30
     = Inr \<lparr>returncode = 1, stdout = [], stderr = asc ''cat: /x: No such file''\<rparr>"
    by (simp add: execute_command_def simulated_def strip_def is_space_def)
  have n: "\<not> is_check (ReadFile (asc ''/x'') (asc ''utf-8''))" by simp
  have h': "execute_command (simulated (Inr (CompletedProcess 0 (asc ''12 /x'' @ [10]) [])))
       (shell_command (CountLines (asc ''/x''))) 30
     = Inr \<lparr>returncode = 0, stdout = asc ''12 /x'', stderr = []\<rparr>"
    by (simp add: execute_command_def simulated_def strip_def is_space_def)
  have n': "\<not> is_check (CountLines (asc ''/x''))" by simp
  have p: "count_parses [asc ''12'' \<mapsto> 12] (asc ''12 /x'')"
    by (simp add: count_parses_def split_ws_def strip_def is_space_def)
  show ?thesis
    using h n h' p exit_code_contract [OF h n, of Map.empty]
      exit_code_contract [OF h' n', of "[asc ''12'' \<mapsto> 12]"]
    by simp
qed

text \<open>
  C8. The entries of a directory listing are those of its lines, in order: a line with
  fewer than 9 whitespace-separated tokens gives no entry, and a line with at least 9
  gives one entry, whose name is the 9th token onward (joined by single blanks), whose
  permission string is the first token, and whose type is the directory label exactly
  when the first token starts with \<open>d\<close>, the file label (a different text) otherwise.
  These entries are the content that \<open>list_directory\<close> returns on exit code 0.
\<close>

theorem listing_parsing:
  "directory_loop lines [] =
     concat (map (\<lambda>line.
       if 9 \<le> length (split_ws line) then
         [[(k_name, VStr (join (asc '' '') (drop 8 (split_ws line)))),
           (k_perms, VStr (split_ws line ! 0)),
           (k_type, VStr (if prefix (asc ''d'') (split_ws line ! 0) then label_directory
                          else label_file))]]
       else []) lines)
   \<and> label_directory \<noteq> label_file
   \<and> (execute_command run (shell_command (ListDirectory dir_path)) 30 = Inr result
        \<and> returncode result = 0 \<longrightarrow>
      (\<exists>d. list_directory run dir_path = Inr d
         \<and> map_of d k_content =
             Some (VList (map VDict
               (directory_loop (split_on 10 (strip (stdout result))) [])))))"
  by (auto simp add: directory_loop_eq label_directory_def label_file_def list_directory_def
        Let_def keys)

theorem listing_parsing_witness:
  "directory_loop
     [asc ''total 8'',
      asc ''drwxr-xr-x 2 u g 4096 Jan  1 00:00 docs'',
      asc ''-rw-r--r-- 1 u g 12 Jan  1 00:00 a b.txt''] []
   = [[(k_name, VStr (asc ''docs'')), (k_perms, VStr (asc ''drwxr-xr-x'')),
       (k_type, VStr label_directory)],
      [(k_name, VStr (asc ''a b.txt'')), (k_perms, VStr (asc ''-rw-r--r--'')),
       (k_type, VStr label_file)]]
   \<and> execute_command
        (simulated (Inr (CompletedProcess 0
           (asc ''total 8'' @ [10] @ asc ''drwxr-xr-x 2 u g 4096 Jan  1 00:00 docs'' @ [10]) [])))
        (shell_command (ListDirectory (asc ''~''))) 30
     = Inr \<lparr>returncode = 0,
            stdout = asc ''total 8'' @ [10] @ asc ''drwxr-xr-x 2 u g 4096 Jan  1 00:00 docs'',
            stderr = []\<rparr>
   \<and> (\<exists>d. list_directory
        (simulated (Inr (CompletedProcess 0
           (asc ''total 8'' @ [10] @ asc ''drwxr-xr-x 2 u g 4096 Jan  1 00:00 docs'' @ [10]) [])))
        (asc ''~'') = Inr d
      \<and> map_of d k_content =
          Some (VList [VDict [(k_name, VStr (asc ''docs'')), (k_perms, VStr (asc ''drwxr-xr-x'')),
                              (k_type, VStr label_directory)]]))"
proof -
  have t1: "split_ws (asc ''total 8'') = [asc ''total'', asc ''8'']"
    by (simp add: split_ws_def is_space_def)
  have t2: "split_ws (asc ''drwxr-xr-x 2 u g 4096 Jan  1 00:00 docs'') =
              [asc ''drwxr-xr-x'', asc ''2'', asc ''u'', asc ''g'', asc ''4096'', asc ''Jan'',
               asc ''1'', asc ''00:00'', asc ''docs'']"
    by (simp add: split_ws_def is_space_def)
  have t3: "split_ws (asc ''-rw-r--r-- 1 u g 12 Jan  1 00:00 a b.txt'') =
              [asc ''-rw-r--r--'', asc ''1'', asc ''u'', asc ''g'', asc ''12'', asc ''Jan'',
               asc ''1'', asc ''00:00'', asc ''a'', asc ''b.txt'']"
    by (simp add: split_ws_def is_space_def)
  have h: "execute_command
        (simulated (Inr (CompletedProcess 0
           (asc ''total 8'' @ [10] @ asc ''drwxr-xr-x 2 u g 4096 Jan  1 00:00 docs'' @ [10]) [])))
        (shell_command (ListDirectory (asc ''~''))) 30
     = Inr \<lparr>returncode = 0,
            stdout = asc ''total 8'' @ [10] @ asc ''drwxr-xr-x 2 u g 4096 Jan  1 00:00 docs'',
            stderr = []\<rparr>"
    by (simp add: execute_command_def simulated_def strip_def is_space_def)
  have l: "split_on 10 (strip (asc ''total 8'' @ [10] @ asc ''drwxr-xr-x 2 u g 4096 Jan  1 00:00 docs''))
           = [asc ''total 8'', asc ''drwxr-xr-x 2 u g 4096 Jan  1 00:00 docs'']"
    by (simp add: strip_def is_space_def)
  have first: "directory_loop
     [asc ''total 8'',
      asc ''drwxr-xr-x 2 u g 4096 Jan  1 00:00 docs'',
      asc ''-rw-r--r-- 1 u g 12 Jan  1 00:00 a b.txt''] []
   = [[(k_name, VStr (asc ''docs'')), (k_perms, VStr (asc ''drwxr-xr-x'')),
       (k_type, VStr label_directory)],
      [(k_name, VStr (asc ''a b.txt'')), (k_perms, VStr (asc ''-rw-r--r--'')),
       (k_type, VStr label_file)]]"
    using t1 t2 t3
      listing_parsing [of "[asc ''total 8'',
        asc ''drwxr-xr-x 2 u g 4096 Jan  1 00:00 docs'',
        asc ''-rw-r--r-- 1 u g 12 Jan  1 00:00 a b.txt'']"]
    by simp
  have second: "directory_loop
     [asc ''total 8'', asc ''drwxr-xr-x 2 u g 4096 Jan  1 00:00 docs''] []
   = [[(k_name, VStr (asc ''docs'')), (k_perms, VStr (asc ''drwxr-xr-x'')),
       (k_type, VStr label_directory)]]"
    using t1 t2
      listing_parsing [of "[asc ''total 8'', asc ''drwxr-xr-x 2 u g 4096 Jan  1 00:00 docs'']"]
    by simp
  show ?thesis
    using first second h l
      listing_parsing [of "[]"
        "simulated (Inr (CompletedProcess 0
           (asc ''total 8'' @ [10] @ asc ''drwxr-xr-x 2 u g 4096 Jan  1 00:00 docs'' @ [10]) []))"
        "asc ''~''"
        "\<lparr>returncode = 0,
            stdout = asc ''total 8'' @ [10] @ asc ''drwxr-xr-x 2 u g 4096 Jan  1 00:00 docs'',
            stderr = []\<rparr>"]
    by simp
qed

end
